theory Spec2Isabelle
  imports Main
begin

section \<open>Errors\<close>

text \<open>
  Every exception of the two services is a value: \<open>BadRequestException\<close> with its
  message (the spec's ValidationError), the \<open>NotFoundError\<close> of a \<open>\<dots>OrThrow\<close>
  query, the validation error of a \<open>findUnique\<close> without its key, the \<open>TypeError\<close>
  of reading a property of \<open>undefined\<close> or iterating it, the \<open>SyntaxError\<close> of
  \<open>JSON.parse\<close>, a plain \<open>Error\<close> with its message, and a failure of the
  relational store.
\<close>

datatype error =
    BadRequestException string
  | NotFoundError
  | PrismaValidationError
  | TypeError
  | SyntaxError
  | Error string
  | StoreError string

section \<open>JavaScript library functions\<close>

text \<open>\<open>String.prototype.split\<close> with a one-character separator.\<close>

fun split :: "char \<Rightarrow> string \<Rightarrow> string list" where
  "split sep [] = [[]]"
| "split sep (c # cs) =
     (if c = sep then [] # split sep cs
      else (case split sep cs of
              [] \<Rightarrow> [[c]]
            | p # ps \<Rightarrow> (c # p) # ps))"

text \<open>Reading an array position that may be absent (\<open>undefined\<close> is \<open>None\<close>).\<close>

definition at :: "'a list \<Rightarrow> nat \<Rightarrow> 'a option" where
  "at xs i = (if i < length xs then Some (xs ! i) else None)"

text \<open>Truthiness of a \<open>string | undefined\<close>.\<close>

fun truthy_string :: "string option \<Rightarrow> bool" where
  "truthy_string None = False"
| "truthy_string (Some s) = (s \<noteq> [])"

text \<open>\<open>Array.prototype.join\<close> on an array of strings.\<close>

fun join :: "string \<Rightarrow> string list \<Rightarrow> string" where
  "join sep [] = []"
| "join sep [x] = x"
| "join sep (x # y # ys) = x @ sep @ join sep (y # ys)"

text \<open>
  A plain object used as a dictionary is an association list in insertion order:
  \<open>obj[key] = value\<close> replaces the value of a key in place or appends a new key.
\<close>

fun assign :: "(string \<times> 'a) list \<Rightarrow> string \<Rightarrow> 'a \<Rightarrow> (string \<times> 'a) list" where
  "assign [] k v = [(k, v)]"
| "assign ((k', v') # kvs) k v =
     (if k' = k then (k, v) # kvs else (k', v') # assign kvs k v)"

text \<open>lodash \<open>keyBy\<close>.\<close>

definition keyBy :: "('a \<Rightarrow> string) \<Rightarrow> 'a list \<Rightarrow> (string \<times> 'a) list" where
  "keyBy key xs = foldl (\<lambda>obj x. assign obj (key x) x) [] xs"

text \<open>
  A plain object inherits the members of \<open>Object.prototype\<close>, so \<open>obj[key]\<close> reads an
  own property or, when there is none, the inherited member of that name. On an object
  whose own values are objects, the test \<open>obj[key]\<close> is truthy for an own key and for
  the name of an inherited member (each of them a function or an object).
\<close>

definition Object_prototype :: "string list" where
  "Object_prototype =
     [''constructor'', ''__defineGetter__'', ''__defineSetter__'', ''hasOwnProperty'',
      ''__lookupGetter__'', ''__lookupSetter__'', ''isPrototypeOf'',
      ''propertyIsEnumerable'', ''toString'', ''valueOf'', ''__proto__'',
      ''toLocaleString'']"

definition object_truthy :: "(string \<times> 'a) list \<Rightarrow> string \<Rightarrow> bool" where
  "object_truthy obj k = (map_of obj k \<noteq> None \<or> k \<in> set Object_prototype)"

section \<open>Aggregation service: data model\<close>

text \<open>
  The raw values of a result row have the TypeScript type \<open>unknown\<close>. The model lists
  the run-time shapes the conversion functions tell apart. JavaScript numbers are kept
  abstract (the type variable \<open>'n\<close>, of which only \<open>0\<close> is used); a \<open>Date\<close> is
  represented by the text its \<open>toISOString()\<close> yields, and any other object by the
  text its \<open>toString()\<close> yields.
\<close>

datatype 'n unknown =
    VUndefined
  | VNull
  | VBigInt int
  | VNumber 'n
  | VString string
  | VDate string
  | VBoolean bool
  | VObject string

text \<open>The result type \<open>number | string | null\<close> of the conversion functions.\<close>

datatype 'n converted = CNull | CNumber 'n | CString string

text \<open>
  The enum \<open>StatisticsFunc\<close> comes from the core package; the members the service names
  are listed, every other member is \<open>OtherFunc\<close> with its enum value.
\<close>

datatype StatisticsFunc =
    DateRangeOfMonths
  | PercentEmpty
  | PercentFilled
  | PercentUnique
  | PercentChecked
  | PercentUnChecked
  | OtherFunc string

text \<open>A result row \<open>{ [field: string]: unknown }\<close>; an absent property reads \<open>undefined\<close>.\<close>

type_synonym 'n row = "(string \<times> 'n unknown) list"

definition row_get :: "'n row \<Rightarrow> string \<Rightarrow> 'n unknown" where
  "row_get r k = (case map_of r k of None \<Rightarrow> VUndefined | Some v \<Rightarrow> v)"

text \<open>Filters are passed through unread.\<close>

datatype IFilter = IFilter string

text \<open>The search tuple \<open>[string, string?, boolean?]\<close>.\<close>

type_synonym search = "string \<times> string option \<times> bool option"

text \<open>\<open>filterLinkCellCandidate\<close> and \<open>filterLinkCellSelected\<close>: a field id, or a field id and a record id.\<close>

datatype link_cell = LinkCell string "string option"

text \<open>
  The truthiness of \<open>filterLinkCellCandidate\<close> and \<open>filterLinkCellSelected\<close>: absent
  and the empty string are falsy, a non-empty string and an array are truthy.
\<close>

fun truthy_link_cell :: "link_cell option \<Rightarrow> bool" where
  "truthy_link_cell None = False"
| "truthy_link_cell (Some (LinkCell f None)) = (f \<noteq> [])"
| "truthy_link_cell (Some (LinkCell f (Some r))) = True"

text \<open>A field instance as the aggregation service reads it, and the field map.\<close>

record IFieldInstance =
  id_fi :: string
  dbFieldName :: string

type_synonym field_map = "(string \<times> IFieldInstance) list"

record IAggregationField =
  fieldId_s :: string
  statisticFunc_s :: StatisticsFunc

record IGroupItem =
  fieldId_g :: string
  order_g :: string

type_synonym IGroup = "IGroupItem list"

text \<open>
  An entry of \<open>IRawAggregations\<close>. The \<open>group\<close> object is keyed by group ids, which
  are texts of integers; it is a map, since the order of its keys is not the insertion order.
\<close>

record 'n aggregation_value =
  value_a :: "'n converted"
  aggFunc_a :: StatisticsFunc

record 'n raw_aggregation =
  fieldId_a :: string
  total :: "'n aggregation_value option"
  group_a :: "(string \<rightharpoonup> 'n aggregation_value) option"

text \<open>
  The query builders of the database provider and of the record service are not among the
  source files. A compiled query is the record of the builder calls the service makes, with
  their arguments:
  \<open>filterQuery(qb, fieldMap, filter, {withUserId})\<close>, \<open>searchQuery(qb, fieldMap, search)\<close>,
  \<open>whereIn(column, ids)\<close>, \<open>whereNotIn(column, ids)\<close>,
  \<open>buildLinkCandidateQuery(qb, tableId, dbTableName, candidate)\<close> and
  \<open>buildLinkSelectedQuery(qb, tableId, dbTableName, selected)\<close>.
\<close>

datatype where_clause =
    FilterQuery field_map IFilter "string option"
  | SearchQuery field_map search
  | WhereIn string "string list"
  | WhereNotIn string "string list"
  | LinkCandidateQuery string string link_cell
  | LinkSelectedQuery string string link_cell

text \<open>
  The aggregation query: the common table expression \<open>main_table\<close> over the table with
  its conditions, \<open>aggregationQuery(qb, tableAlias, fieldMap, statisticFields)\<close> and,
  when grouping, \<open>groupQuery(qb, fieldMap, fieldIds)\<close>.
\<close>

record aggregation_query =
  with_alias :: string
  with_from :: string
  with_where :: "where_clause list"
  from_alias :: string
  aggregation :: "string \<times> field_map \<times> IAggregationField list"
  groupQuery :: "(field_map \<times> string list) option"

text \<open>The row count query: the table and its conditions.\<close>

record row_count_query =
  from_q :: string
  where_q :: "where_clause list"

text \<open>
  What the aggregation service uses from outside: \<open>Number(bigint)\<close>,
  \<open>dayjs(a).diff(b, 'month')\<close>, \<open>String(number)\<close>, the helpers \<open>string2Hash\<close> and
  \<open>convertValueToStringify\<close> of the utilities (not among the source files), the text of
  a \<open>StatisticsFunc\<close> member, and the relational store answering an aggregation query
  (\<open>Inl\<close> when it fails).
\<close>

record 'n js_env =
  Number_bigint :: "int \<Rightarrow> 'n"
  dayjs_diff_month :: "string \<Rightarrow> string \<Rightarrow> 'n"
  String_number :: "'n \<Rightarrow> string"
  string2Hash :: "string \<Rightarrow> 'n"
  convertValueToStringify :: "'n unknown \<Rightarrow> 'n converted"
  StatisticsFunc_text :: "StatisticsFunc \<Rightarrow> string"
  queryRawUnsafe :: "aggregation_query \<Rightarrow> error + 'n row list"

section \<open>Aggregation service: post-processing of aggregate values\<close>

definition convertValueToNumberOrString :: "'n js_env \<Rightarrow> 'n unknown \<Rightarrow> 'n converted" where
  "convertValueToNumberOrString E currentValue =
     (case currentValue of
        VBigInt b \<Rightarrow> CNumber (Number_bigint E b)
      | VNumber n \<Rightarrow> CNumber n
      | VDate d \<Rightarrow> CString d
      | VUndefined \<Rightarrow> CNull
      | VNull \<Rightarrow> CNull
      | VString s \<Rightarrow> CString s
      | VBoolean b \<Rightarrow> CString (if b then ''true'' else ''false'')
      | VObject s \<Rightarrow> CString s)"

definition calculateDateRangeOfMonths :: "('n::zero) js_env \<Rightarrow> string \<Rightarrow> 'n" where
  "calculateDateRangeOfMonths E currentValue =
     (let parts = split CHR '','' currentValue;
          maxTime = at parts 0;
          minTime = at parts 1
      in if truthy_string maxTime \<and> truthy_string minTime
         then (case (maxTime, minTime) of
                 (Some mx, Some mn) \<Rightarrow> dayjs_diff_month E mx mn
               | _ \<Rightarrow> 0)
         else 0)"

definition defaultToZero :: "StatisticsFunc list" where
  "defaultToZero =
     [PercentEmpty, PercentFilled, PercentUnique, PercentChecked, PercentUnChecked]"

definition formatConvertValue ::
  "('n::zero) js_env \<Rightarrow> 'n unknown \<Rightarrow> StatisticsFunc option \<Rightarrow> 'n converted" where
  "formatConvertValue E currentValue aggFunc =
     (let convertValue = convertValueToNumberOrString E currentValue in
      case aggFunc of
        None \<Rightarrow> convertValue
      | Some f \<Rightarrow>
          (let convertValue1 =
                 (case currentValue of
                    VString s \<Rightarrow>
                      if f = DateRangeOfMonths
                      then CNumber (calculateDateRangeOfMonths E s)
                      else convertValue
                  | _ \<Rightarrow> convertValue)
           in if f \<in> set defaultToZero
              then (case convertValue1 of CNull \<Rightarrow> CNumber 0 | c \<Rightarrow> c)
              else convertValue1))"


section \<open>Aggregation service: query compilers\<close>

text \<open>The test \<open>search && search[2]\<close>.\<close>

fun search_applies :: "search option \<Rightarrow> bool" where
  "search_applies None = False"
| "search_applies (Some (_, _, flag)) = (flag = Some True)"

text \<open>
  The query \<open>handleAggregation\<close> builds. The parameter
  \<open>fieldInstanceMapWithoutHiddenFields\<close> is accepted and not read.
\<close>

definition handleAggregation_query ::
  "string \<Rightarrow> field_map \<Rightarrow> field_map \<Rightarrow> IFilter option \<Rightarrow> IGroup option \<Rightarrow> search option
     \<Rightarrow> IAggregationField list \<Rightarrow> string option \<Rightarrow> aggregation_query" where
  "handleAggregation_query dbTableName' fieldInstanceMap fieldInstanceMapWithoutHiddenFields
       filter' groupBy search statisticFields withUserId =
     (let tableAlias = ''main_table''
      in \<lparr>with_alias = tableAlias,
          with_from = dbTableName',
          with_where =
            (case filter' of
               None \<Rightarrow> []
             | Some f \<Rightarrow> [FilterQuery fieldInstanceMap f withUserId])
            @ (case search of
                 None \<Rightarrow> []
               | Some s \<Rightarrow> if search_applies search then [SearchQuery fieldInstanceMap s] else []),
          from_alias = tableAlias,
          aggregation = (tableAlias, fieldInstanceMap, statisticFields),
          groupQuery =
            (case groupBy of
               None \<Rightarrow> None
             | Some g \<Rightarrow> Some (fieldInstanceMap, map fieldId_g g))\<rparr>)"

text \<open>\<open>handleAggregation\<close> returns \<open>undefined\<close> (\<open>Inr None\<close>) without statistic fields.\<close>

definition handleAggregation ::
  "'n js_env \<Rightarrow> string \<Rightarrow> field_map \<Rightarrow> field_map \<Rightarrow> IFilter option \<Rightarrow> IGroup option
     \<Rightarrow> search option \<Rightarrow> IAggregationField list option \<Rightarrow> string option
     \<Rightarrow> error + 'n row list option" where
  "handleAggregation E dbTableName' fieldInstanceMap fieldInstanceMapWithoutHiddenFields
       filter' groupBy search statisticFields withUserId =
     (case statisticFields of
        None \<Rightarrow> Inr None
      | Some [] \<Rightarrow> Inr None
      | Some sfs \<Rightarrow>
          map_sum (\<lambda>e. e) Some
            (queryRawUnsafe E
               (handleAggregation_query dbTableName' fieldInstanceMap
                  fieldInstanceMapWithoutHiddenFields filter' groupBy search sfs withUserId)))"

text \<open>
  The query \<open>handleRowCount\<close> builds. The tests of \<open>filter\<close>, of the search, of
  \<open>selectedRecordIds\<close> (an array, truthy when present), of \<open>filterLinkCellCandidate\<close>
  and of \<open>filterLinkCellSelected\<close> are truthiness tests.
\<close>

definition handleRowCount_query ::
  "string \<Rightarrow> string \<Rightarrow> field_map \<Rightarrow> field_map \<Rightarrow> IFilter option \<Rightarrow> link_cell option
     \<Rightarrow> link_cell option \<Rightarrow> string list option \<Rightarrow> search option \<Rightarrow> string option
     \<Rightarrow> row_count_query" where
  "handleRowCount_query tableId' dbTableName' fieldInstanceMap
       fieldInstanceMapWithoutHiddenFields filter' filterLinkCellCandidate
       filterLinkCellSelected selectedRecordIds search withUserId =
     \<lparr>from_q = dbTableName',
      where_q =
        (case filter' of
           None \<Rightarrow> []
         | Some f \<Rightarrow> [FilterQuery fieldInstanceMap f withUserId])
        @ (case search of
             None \<Rightarrow> []
           | Some s \<Rightarrow>
               if search_applies search
               then [SearchQuery fieldInstanceMapWithoutHiddenFields s] else [])
        @ (case selectedRecordIds of
             None \<Rightarrow> []
           | Some ids \<Rightarrow>
               if truthy_link_cell filterLinkCellCandidate
               then [WhereNotIn (dbTableName' @ ''.__id'') ids]
               else [WhereIn (dbTableName' @ ''.__id'') ids])
        @ (case filterLinkCellCandidate of
             None \<Rightarrow> []
           | Some c \<Rightarrow>
               if truthy_link_cell filterLinkCellCandidate
               then [LinkCandidateQuery tableId' dbTableName' c] else [])
        @ (case filterLinkCellSelected of
             None \<Rightarrow> []
           | Some c \<Rightarrow>
               if truthy_link_cell filterLinkCellSelected
               then [LinkSelectedQuery tableId' dbTableName' c] else [])\<rparr>"

text \<open>
  The relational store answering a count query: the rows of a table, the text of a column
  of a row (\<open>None\<close> for SQL NULL), and which rows a condition built outside the service
  admits. The conditions of a query are conjoined; \<open>whereIn\<close> and \<open>whereNotIn\<close> have
  their SQL meaning, an empty list giving the conditions \<open>1 = 0\<close> and \<open>1 = 1\<close>.
\<close>

record 'r relation_store =
  table_rows :: "string \<Rightarrow> 'r list"
  column_text :: "string \<Rightarrow> 'r \<Rightarrow> string option"
  admits :: "where_clause \<Rightarrow> 'r \<Rightarrow> bool"

fun where_holds :: "'r relation_store \<Rightarrow> 'r \<Rightarrow> where_clause \<Rightarrow> bool" where
  "where_holds R r (WhereIn col ids) =
     (case column_text R col r of None \<Rightarrow> False | Some v \<Rightarrow> v \<in> set ids)"
| "where_holds R r (WhereNotIn col ids) =
     (ids = [] \<or> (case column_text R col r of None \<Rightarrow> False | Some v \<Rightarrow> v \<notin> set ids))"
| "where_holds R r c = admits R c r"

definition counted_rows :: "'r relation_store \<Rightarrow> row_count_query \<Rightarrow> 'r list" where
  "counted_rows R q = filter (\<lambda>r. list_all (where_holds R r) (where_q q)) (table_rows R (from_q q))"

text \<open>\<open>getRowCount\<close>: \<open>SELECT COUNT(*)\<close> over the query.\<close>

definition getRowCount :: "'r relation_store \<Rightarrow> row_count_query \<Rightarrow> nat" where
  "getRowCount R q = length (counted_rows R q)"

definition handleRowCount ::
  "'r relation_store \<Rightarrow> string \<Rightarrow> string \<Rightarrow> field_map \<Rightarrow> field_map \<Rightarrow> IFilter option
     \<Rightarrow> link_cell option \<Rightarrow> link_cell option \<Rightarrow> string list option \<Rightarrow> search option
     \<Rightarrow> string option \<Rightarrow> nat" where
  "handleRowCount R tableId' dbTableName' fieldInstanceMap fieldInstanceMapWithoutHiddenFields
       filter' filterLinkCellCandidate filterLinkCellSelected selectedRecordIds search
       withUserId =
     getRowCount R
       (handleRowCount_query tableId' dbTableName' fieldInstanceMap
          fieldInstanceMapWithoutHiddenFields filter' filterLinkCellCandidate
          filterLinkCellSelected selectedRecordIds search withUserId)"

section \<open>Aggregation service: grouped aggregation\<close>

text \<open>How \<open>Array.prototype.join\<close> renders an element: \<open>null\<close> as the empty text.\<close>

fun join_element :: "'n js_env \<Rightarrow> 'n converted \<Rightarrow> string" where
  "join_element E CNull = []"
| "join_element E (CNumber n) = String_number E n"
| "join_element E (CString s) = s"

text \<open>\<open>groupBy.map(\<dots>)\<close>: reading \<open>dbFieldName\<close> of a field missing from the map throws.\<close>

fun groupByFields :: "field_map \<Rightarrow> IGroup \<Rightarrow> error + (string \<times> string) list" where
  "groupByFields fieldInstanceMap [] = Inr []"
| "groupByFields fieldInstanceMap (g # gs) =
     (case map_of fieldInstanceMap (fieldId_g g) of
        None \<Rightarrow> Inl TypeError
      | Some fi \<Rightarrow>
          (case groupByFields fieldInstanceMap gs of
             Inl e \<Rightarrow> Inl e
           | Inr rest \<Rightarrow> Inr ((fieldId_g g, dbFieldName fi) # rest)))"

text \<open>The group id of a result row at level \<open>i\<close> (lines 174 to 182 of the source).\<close>

definition groupId_of :: "'n js_env \<Rightarrow> (string \<times> string) list \<Rightarrow> nat \<Rightarrow> string \<Rightarrow> 'n row \<Rightarrow> string" where
  "groupId_of E groupByFields' i currentGroupFieldId groupedAggregation =
     (let groupByValueString =
            join ''_''
              (map (\<lambda>(fieldId', dbFieldName').
                      join_element E
                        (convertValueToStringify E (row_get groupedAggregation dbFieldName')))
                 (take (i + 1) groupByFields'));
          flagString = currentGroupFieldId @ ''_'' @ groupByValueString
      in String_number E (string2Hash E flagString))"

text \<open>The loop over the statistic fields, for one row and its group id.\<close>

fun statisticLoop ::
  "('n::zero) js_env \<Rightarrow> 'n row \<Rightarrow> string \<Rightarrow> IAggregationField list
     \<Rightarrow> (string \<times> 'n raw_aggregation) list \<Rightarrow> error + (string \<times> 'n raw_aggregation) list" where
  "statisticLoop E groupedAggregation groupId [] aggregationByFieldId = Inr aggregationByFieldId"
| "statisticLoop E groupedAggregation groupId (statisticField # rest) aggregationByFieldId =
     (let fieldId' = fieldId_s statisticField;
          statisticFunc' = statisticFunc_s statisticField;
          aggKey = fieldId' @ ''_'' @ StatisticsFunc_text E statisticFunc';
          convertValue =
            formatConvertValue E (row_get groupedAggregation aggKey) (Some statisticFunc');
          entry = \<lparr>value_a = convertValue, aggFunc_a = statisticFunc'\<rparr>
      in case map_of aggregationByFieldId fieldId' of
           None \<Rightarrow> Inl TypeError
         | Some curFieldAggregation \<Rightarrow>
             statisticLoop E groupedAggregation groupId rest
               (assign aggregationByFieldId fieldId'
                  (curFieldAggregation
                     \<lparr>group_a :=
                        (case group_a curFieldAggregation of
                           None \<Rightarrow> Some (Map.empty(groupId \<mapsto> entry))
                         | Some g \<Rightarrow> Some (g(groupId \<mapsto> entry)))\<rparr>)))"

text \<open>The loop over the result rows of one level.\<close>

fun rowLoop ::
  "('n::zero) js_env \<Rightarrow> (string \<times> string) list \<Rightarrow> nat \<Rightarrow> string \<Rightarrow> IAggregationField list
     \<Rightarrow> 'n row list \<Rightarrow> (string \<times> 'n raw_aggregation) list
     \<Rightarrow> error + (string \<times> 'n raw_aggregation) list" where
  "rowLoop E groupByFields' i currentGroupFieldId statisticFields [] aggregationByFieldId =
     Inr aggregationByFieldId"
| "rowLoop E groupByFields' i currentGroupFieldId statisticFields (groupedAggregation # rest)
       aggregationByFieldId =
     (let groupId = groupId_of E groupByFields' i currentGroupFieldId groupedAggregation
      in case statisticLoop E groupedAggregation groupId statisticFields aggregationByFieldId of
           Inl e \<Rightarrow> Inl e
         | Inr aggregationByFieldId' \<Rightarrow>
             rowLoop E groupByFields' i currentGroupFieldId statisticFields rest
               aggregationByFieldId')"

text \<open>
  The rows of the level \<open>i\<close> query: \<open>handleAggregation\<close> with the first \<open>i + 1\<close>
  group items; iterating \<open>undefined\<close> throws.
\<close>

definition level_rows ::
  "'n js_env \<Rightarrow> string \<Rightarrow> field_map \<Rightarrow> field_map \<Rightarrow> IFilter option \<Rightarrow> IGroup
     \<Rightarrow> search option \<Rightarrow> IAggregationField list \<Rightarrow> string option \<Rightarrow> nat
     \<Rightarrow> error + 'n row list" where
  "level_rows E dbTableName' fieldInstanceMap fieldInstanceMapWithoutHiddenFields filter'
       groupBy search statisticFields currentUserId i =
     (case handleAggregation E dbTableName' fieldInstanceMap fieldInstanceMapWithoutHiddenFields
             filter' (Some (take (i + 1) groupBy)) search (Some statisticFields) currentUserId of
        Inl e \<Rightarrow> Inl e
      | Inr None \<Rightarrow> Inl TypeError
      | Inr (Some rawGroupedAggregationData) \<Rightarrow> Inr rawGroupedAggregationData)"

text \<open>The loop over the levels \<open>i = 0, \<dots>, groupBy.length - 1\<close>, given as a list.\<close>

fun levelLoop ::
  "('n::zero) js_env \<Rightarrow> string \<Rightarrow> field_map \<Rightarrow> field_map \<Rightarrow> IFilter option \<Rightarrow> IGroup
     \<Rightarrow> search option \<Rightarrow> IAggregationField list \<Rightarrow> string option
     \<Rightarrow> (string \<times> string) list \<Rightarrow> nat list \<Rightarrow> (string \<times> 'n raw_aggregation) list
     \<Rightarrow> error + (string \<times> 'n raw_aggregation) list" where
  "levelLoop E dbTableName' fieldInstanceMap fieldInstanceMapWithoutHiddenFields filter'
       groupBy search statisticFields currentUserId groupByFields' [] aggregationByFieldId =
     Inr aggregationByFieldId"
| "levelLoop E dbTableName' fieldInstanceMap fieldInstanceMapWithoutHiddenFields filter'
       groupBy search statisticFields currentUserId groupByFields' (i # levels)
       aggregationByFieldId =
     (case level_rows E dbTableName' fieldInstanceMap fieldInstanceMapWithoutHiddenFields
             filter' groupBy search statisticFields currentUserId i of
        Inl e \<Rightarrow> Inl e
      | Inr rawGroupedAggregationData \<Rightarrow>
          (case at groupByFields' i of
             None \<Rightarrow> Inl TypeError
           | Some (currentGroupFieldId, _) \<Rightarrow>
               (case rowLoop E groupByFields' i currentGroupFieldId statisticFields
                       rawGroupedAggregationData aggregationByFieldId of
                  Inl e \<Rightarrow> Inl e
                | Inr aggregationByFieldId' \<Rightarrow>
                    levelLoop E dbTableName' fieldInstanceMap
                      fieldInstanceMapWithoutHiddenFields filter' groupBy search statisticFields
                      currentUserId groupByFields' levels aggregationByFieldId')))"

definition performGroupedAggregation ::
  "('n::zero) js_env \<Rightarrow> string option \<Rightarrow> 'n raw_aggregation list
     \<Rightarrow> IAggregationField list option \<Rightarrow> IFilter option \<Rightarrow> search option \<Rightarrow> IGroup option
     \<Rightarrow> string \<Rightarrow> field_map \<Rightarrow> field_map \<Rightarrow> error + 'n raw_aggregation list" where
  "performGroupedAggregation E currentUserId aggregations statisticFields filter' search
       groupBy dbTableName' fieldInstanceMap fieldInstanceMapWithoutHiddenFields =
     (case (groupBy, statisticFields) of
        (Some gb, Some sfs) \<Rightarrow>
          (let aggregationByFieldId = keyBy fieldId_a aggregations
           in case groupByFields fieldInstanceMap gb of
                Inl e \<Rightarrow> Inl e
              | Inr groupByFields' \<Rightarrow>
                  map_sum (\<lambda>e. e) (map snd)
                    (levelLoop E dbTableName' fieldInstanceMap
                       fieldInstanceMapWithoutHiddenFields filter' gb search sfs currentUserId
                       groupByFields' [0..<length gb] aggregationByFieldId))
      | _ \<Rightarrow> Inr aggregations)"

section \<open>Field supplement service: data model\<close>

text \<open>
  Modelled from the spec: the members of the enum \<open>Relationship\<close> of the core package,
  which is not among the source files; the spec lists OneMany, ManyOne and ManyMany.
\<close>

datatype Relationship = ManyMany | OneMany | ManyOne

text \<open>
  Modelled from the spec: the table \<open>RelationshipRevert\<close> of the core package, which is
  not among the source files. The spec gives the mirror rule:
  OneMany and ManyOne are exchanged, ManyMany is kept.
\<close>

fun RelationshipRevert :: "Relationship \<Rightarrow> Relationship" where
  "RelationshipRevert OneMany = ManyOne"
| "RelationshipRevert ManyOne = OneMany"
| "RelationshipRevert ManyMany = ManyMany"

text \<open>
  The enum \<open>FieldType\<close> of the core package: the three members the service names, and
  \<open>OtherType\<close> for every other member.
\<close>

datatype FieldType = Link | Formula | Rollup | OtherType string

text \<open>Formatting objects and cell value types are passed through unread.\<close>

datatype formatting = Formatting string

datatype CellValueType = CellValueType string

text \<open>
  \<open>field.options\<close> is cast by the service to the option type of a link, a formula, a
  rollup or a number field. At run time it is one object; the record lists the properties
  the service reads or writes, each of which may be absent (\<open>undefined\<close> is \<open>None\<close>).
\<close>

record field_options =
  relationship :: "Relationship option"
  foreignTableId :: "string option"
  lookupFieldId :: "string option"
  dbForeignKeyName :: "string option"
  symmetricFieldId :: "string option"
  expression :: "string option"
  formatting :: "formatting option"

definition no_options :: field_options where
  "no_options =
     \<lparr>relationship = None, foreignTableId = None, lookupFieldId = None,
      dbForeignKeyName = None, symmetricFieldId = None, expression = None,
      formatting = None\<rparr>"

text \<open>\<open>lookupOptions\<close> of a lookup or rollup field.\<close>

record lookup_options =
  linkFieldId :: string
  lookupFieldId_lo :: string
  foreignTableId_lo :: string
  relationship_lo :: "Relationship option"
  dbForeignKeyName_lo :: "string option"

text \<open>
  \<open>IFieldRo\<close>, the field definition handed to \<open>prepareField\<close>, and \<open>LinkFieldDto\<close>,
  the instance handed to \<open>supplementByCreate\<close>: the factory that builds an instance
  from a definition is not among the source files, and an instance is taken to carry the
  properties of the definition unchanged.
\<close>

record IFieldRo =
  id_f :: "string option"
  name_f :: "string option"
  type_f :: FieldType
  isLookup :: "bool option"
  options :: "field_options option"
  lookupOptions :: "lookup_options option"
  cellValueType :: "CellValueType option"
  isMultipleCellValue :: "bool option"

text \<open>
  A JSON text column as \<open>JSON.parse\<close> and the truthiness tests see it: SQL NULL, the
  empty text, a text that does not parse, the text \<open>null\<close>, or the text of an object.
\<close>

datatype 'a json_column = SqlNull | EmptyText | Malformed | JsonNull | JsonObject 'a

text \<open>The rows of the tables \<open>field\<close> and \<open>table_meta\<close> (the columns the service reads).\<close>

record field_row =
  id_raw :: string
  name_raw :: string
  tableId :: string
  type_raw :: FieldType
  options_raw :: "field_options json_column"
  isPrimary :: "bool option"
  deletedTime :: "string option"
  cellValueType_raw :: CellValueType

record table_meta_row =
  id_tbl :: string
  name_tbl :: string
  dbTableName :: string

text \<open>A schema change issued through \<open>$executeRawUnsafe\<close>: table, column name.\<close>

datatype ddl = AlterTableAddUniqueNullableString string "string option"

text \<open>The state of the relational store: rows, and the schema changes executed so far.\<close>

record store =
  tableMeta :: "table_meta_row list"
  field_tbl :: "field_row list"
  executed :: "ddl list"

text \<open>
  \<open>generateFieldId\<close> of the core package draws a random id. The model reads the ids
  from a supply, the sequence of ids the generator is going to return.
\<close>

type_synonym id_supply = "nat \<Rightarrow> string"

definition generateFieldId :: "id_supply \<Rightarrow> string \<times> id_supply" where
  "generateFieldId ids = (ids 0, \<lambda>n. ids (Suc n))"

text \<open>A field instance of the formula field map, built from a row or from a definition.\<close>

datatype field_instance = ByRaw field_row | ByRo IFieldRo

text \<open>
  What the service calls in the core package and in the field model, none of it among the
  source files: the text of a \<open>FieldType\<close> member, \<open>getDefaultFormatting\<close>, the
  formula parser (\<open>None\<close> when it throws) and the value type inference for formulas
  and rollups (\<open>Inl\<close> when they throw; for a rollup the error's message).
\<close>

record core_env =
  FieldType_text :: "FieldType \<Rightarrow> string"
  getDefaultFormatting :: "CellValueType \<Rightarrow> formatting option"
  getReferenceFieldIds :: "string option \<Rightarrow> string list option"
  formula_getParsedValueType ::
    "string option \<Rightarrow> (string \<times> field_instance) list \<Rightarrow> error + CellValueType \<times> bool option"
  rollup_getParsedValueType :: "string option \<Rightarrow> string + CellValueType \<times> bool option"


section \<open>Field supplement service: operations\<close>

definition getDbTableName :: "store \<Rightarrow> string option \<Rightarrow> error + string" where
  "getDbTableName D tid =
     (case tid of
        None \<Rightarrow> Inl PrismaValidationError
      | Some t \<Rightarrow>
          (case find (\<lambda>r. id_tbl r = t) (tableMeta D) of
             None \<Rightarrow> Inl NotFoundError
           | Some tableMeta' \<Rightarrow> Inr (dbTableName tableMeta')))"

definition getForeignKeyFieldName :: "string \<Rightarrow> string" where
  "getForeignKeyFieldName fieldId = ''__fk_'' @ fieldId"

definition getDefaultLinkName :: "store \<Rightarrow> string option \<Rightarrow> error + string" where
  "getDefaultLinkName D foreignTableId' =
     (case foreignTableId' of
        None \<Rightarrow> Inl PrismaValidationError
      | Some t \<Rightarrow>
          (case find (\<lambda>r. id_tbl r = t) (tableMeta D) of
             None \<Rightarrow> Inl (BadRequestException (''foreignTableId '' @ t @ '' is invalid''))
           | Some tableRaw \<Rightarrow> Inr (name_tbl tableRaw)))"

text \<open>
  A \<open>where\<close> condition whose value is \<open>undefined\<close> is left out of a \<open>findFirst\<close>
  query; \<open>findUnique\<close> refuses it.
\<close>

definition where_eq :: "string option \<Rightarrow> string \<Rightarrow> bool" where
  "where_eq wanted actual = (case wanted of None \<Rightarrow> True | Some w \<Rightarrow> actual = w)"

definition prepareLinkField ::
  "store \<Rightarrow> id_supply \<Rightarrow> IFieldRo \<Rightarrow> error + IFieldRo \<times> id_supply" where
  "prepareLinkField D ids field =
     (case options field of
        None \<Rightarrow> Inl TypeError
      | Some opts \<Rightarrow>
          (case find (\<lambda>r. where_eq (foreignTableId opts) (tableId r) \<and> isPrimary r = Some True)
                  (field_tbl D) of
             None \<Rightarrow> Inl NotFoundError
           | Some primary \<Rightarrow>
               (let (fieldId, ids1) =
                      (case id_f field of Some i \<Rightarrow> (i, ids) | None \<Rightarrow> generateFieldId ids);
                    (symmetricFieldId', ids2) = generateFieldId ids1;
                    dbForeignKeyName0 = [];
                    dbForeignKeyName1 =
                      (if relationship opts = Some ManyOne
                       then getForeignKeyFieldName fieldId else dbForeignKeyName0);
                    dbForeignKeyName2 =
                      (if relationship opts = Some OneMany
                       then getForeignKeyFieldName symmetricFieldId' else dbForeignKeyName1)
                in case (case name_f field of
                           Some n \<Rightarrow> Inr n
                         | None \<Rightarrow> getDefaultLinkName D (foreignTableId opts)) of
                     Inl e \<Rightarrow> Inl e
                   | Inr name' \<Rightarrow>
                       Inr (field\<lparr>id_f := Some fieldId,
                                  name_f := Some name',
                                  options := Some
                                    \<lparr>relationship = relationship opts,
                                     foreignTableId = foreignTableId opts,
                                     lookupFieldId = Some (id_raw primary),
                                     dbForeignKeyName = Some dbForeignKeyName2,
                                     symmetricFieldId = Some symmetricFieldId',
                                     expression = None,
                                     formatting = None\<rparr>\<rparr>,
                            ids2))))"

text \<open>
  \<open>prepareLookupOptions\<close>. When the link field's row has no options, the source falls
  back to the definition with the link field's id in the batch and reads it as link
  options; a definition has none of the properties read, so they are all absent.
\<close>

definition prepareLookupOptions ::
  "store \<Rightarrow> IFieldRo \<Rightarrow> IFieldRo list option
     \<Rightarrow> error + lookup_options \<times> field_row \<times> field_row" where
  "prepareLookupOptions D field batchFieldRos =
     (case lookupOptions field of
        None \<Rightarrow> Inl (BadRequestException ''lookupOptions is required'')
      | Some lo \<Rightarrow>
          (let linkFieldRaw =
                 find (\<lambda>r. id_raw r = linkFieldId lo \<and> deletedTime r = None \<and> type_raw r = Link)
                   (field_tbl D);
               fallback =
                 (case batchFieldRos of
                    None \<Rightarrow> None
                  | Some batch \<Rightarrow>
                      map_option (\<lambda>_. no_options)
                        (find (\<lambda>f. id_f f = Some (linkFieldId lo)) batch))
           in case (case linkFieldRaw of
                      None \<Rightarrow> Inr fallback
                    | Some r \<Rightarrow>
                        (case options_raw r of
                           SqlNull \<Rightarrow> Inr fallback
                         | EmptyText \<Rightarrow> Inr fallback
                         | Malformed \<Rightarrow> Inl SyntaxError
                         | JsonNull \<Rightarrow> Inr fallback
                         | JsonObject ob \<Rightarrow> Inr (Some ob))) of
                Inl e \<Rightarrow> Inl e
              | Inr linkFieldOptions \<Rightarrow>
                  (case (linkFieldOptions, linkFieldRaw) of
                     (Some lfo, Some lfr) \<Rightarrow>
                       if Some (foreignTableId_lo lo) \<noteq> foreignTableId lfo
                       then Inl (BadRequestException
                                   (''foreignTableId '' @ foreignTableId_lo lo @ '' is invalid''))
                       else
                         (case find (\<lambda>r. id_raw r = lookupFieldId_lo lo \<and> deletedTime r = None)
                                 (field_tbl D) of
                            None \<Rightarrow>
                              Inl (BadRequestException
                                     (''Lookup field '' @ lookupFieldId_lo lo @ '' is not exist''))
                          | Some lookupFieldRaw \<Rightarrow>
                              Inr (\<lparr>linkFieldId = linkFieldId lo,
                                    lookupFieldId_lo = lookupFieldId_lo lo,
                                    foreignTableId_lo = foreignTableId_lo lo,
                                    relationship_lo = relationship lfo,
                                    dbForeignKeyName_lo = dbForeignKeyName lfo\<rparr>,
                                   lookupFieldRaw, lfr))
                   | _ \<Rightarrow>
                       Inl (BadRequestException
                              (''linkFieldId '' @ linkFieldId lo @ '' is invalid'')))))"

text \<open>\<open>JSON.parse\<close> of an options column, as \<open>prepareLookupField\<close> calls it.\<close>

definition JSON_parse :: "'a json_column \<Rightarrow> error + 'a option" where
  "JSON_parse col =
     (case col of
        SqlNull \<Rightarrow> Inr None
      | EmptyText \<Rightarrow> Inl SyntaxError
      | Malformed \<Rightarrow> Inl SyntaxError
      | JsonNull \<Rightarrow> Inr None
      | JsonObject ob \<Rightarrow> Inr (Some ob))"

definition prepareLookupField ::
  "core_env \<Rightarrow> store \<Rightarrow> IFieldRo \<Rightarrow> IFieldRo list option \<Rightarrow> error + IFieldRo" where
  "prepareLookupField E D field batchFieldRos =
     (case prepareLookupOptions D field batchFieldRos of
        Inl e \<Rightarrow> Inl e
      | Inr (lookupOptions', lookupFieldRaw, linkFieldRaw) \<Rightarrow>
          if type_raw lookupFieldRaw \<noteq> type_f field
          then Inl (BadRequestException
                      (''Current field type '' @ FieldType_text E (type_f field)
                       @ '' is not equal to lookup field (''
                       @ FieldType_text E (type_raw lookupFieldRaw) @ '')''))
          else
            (case JSON_parse (options_raw lookupFieldRaw) of
               Inl e \<Rightarrow> Inl e
             | Inr lookupFieldOptions \<Rightarrow>
                 (let formatting' =
                        (case (case options field of None \<Rightarrow> None | Some ob \<Rightarrow> formatting ob) of
                           Some fm \<Rightarrow> Some fm
                         | None \<Rightarrow> getDefaultFormatting E (cellValueType_raw lookupFieldRaw));
                      options' =
                        (case lookupFieldOptions of
                           None \<Rightarrow> None
                         | Some lfo \<Rightarrow>
                             (case formatting' of
                                Some fm \<Rightarrow> Some (lfo\<lparr>formatting := Some fm\<rparr>)
                              | None \<Rightarrow> Some lfo))
                  in Inr (field\<lparr>name_f :=
                                   (case name_f field of
                                      Some n \<Rightarrow> Some n
                                    | None \<Rightarrow>
                                        Some (name_raw lookupFieldRaw @ '' (from ''
                                              @ name_raw linkFieldRaw @ '')'')),
                                 options := options',
                                 lookupOptions := Some lookupOptions'\<rparr>))))"


text \<open>
  The key \<open>keyBy(\<dots>, 'id')\<close> files an instance under: its id, and the text
  \<open>undefined\<close> for a definition of the batch that has no id yet.
\<close>

fun instance_key :: "field_instance \<Rightarrow> string" where
  "instance_key (ByRaw r) = id_raw r"
| "instance_key (ByRo f) = (case id_f f of None \<Rightarrow> ''undefined'' | Some i \<Rightarrow> i)"

text \<open>
  The field map of \<open>prepareFormulaField\<close>: the rows whose id is among the referenced
  ids, followed by the definitions of the batch, keyed by id.
\<close>

definition formulaFieldMap ::
  "store \<Rightarrow> string list \<Rightarrow> IFieldRo list option \<Rightarrow> (string \<times> field_instance) list" where
  "formulaFieldMap D fieldIds batchFieldRos =
     (let fieldRaws = filter (\<lambda>r. id_raw r \<in> set fieldIds) (field_tbl D);
          fields = map ByRaw fieldRaws;
          batchFields = (case batchFieldRos of None \<Rightarrow> [] | Some batch \<Rightarrow> map ByRo batch)
      in keyBy instance_key (fields @ batchFields))"

text \<open>
  \<open>prepareFormulaField\<close>. Reading \<open>expression\<close> of absent options throws inside the
  \<open>try\<close> block, like a parse failure. The field map is the plain object \<open>keyBy\<close>
  returns, so \<open>!fieldMap[id]\<close> is false also for an id that names a member of
  \<open>Object.prototype\<close>. The test \<open>fieldIds.find(\<dots>)\<close> is a truthiness test of the id
  found, so an id found that is the empty string does not raise.
\<close>

definition prepareFormulaField ::
  "core_env \<Rightarrow> store \<Rightarrow> IFieldRo \<Rightarrow> IFieldRo list option \<Rightarrow> error + IFieldRo" where
  "prepareFormulaField E D field batchFieldRos =
     (case options field of
        None \<Rightarrow> Inl (BadRequestException ''expression parse error'')
      | Some ob \<Rightarrow>
          (case getReferenceFieldIds E (expression ob) of
             None \<Rightarrow> Inl (BadRequestException ''expression parse error'')
           | Some fieldIds \<Rightarrow>
               (let fieldMap = formulaFieldMap D fieldIds batchFieldRos
                in if (case find (\<lambda>i. \<not> object_truthy fieldMap i) fieldIds of
                         None \<Rightarrow> False
                       | Some unresolved \<Rightarrow> unresolved \<noteq> [])
                   then Inl (BadRequestException
                               (''formula field reference '' @ join '','' fieldIds
                                @ '' not found''))
                   else
                     (case formula_getParsedValueType E (expression ob) fieldMap of
                        Inl e \<Rightarrow> Inl e
                      | Inr (cellValueType', isMultipleCellValue') \<Rightarrow>
                          (let formatting' =
                                 (case formatting ob of
                                    Some fm \<Rightarrow> Some fm
                                  | None \<Rightarrow> getDefaultFormatting E cellValueType');
                               options' =
                                 (case formatting' of
                                    None \<Rightarrow> ob
                                  | Some fm \<Rightarrow> ob\<lparr>formatting := Some fm\<rparr>)
                           in Inr (field\<lparr>options := Some options',
                                          cellValueType := Some cellValueType',
                                          isMultipleCellValue := isMultipleCellValue'\<rparr>))))))"

definition prepareRollupField ::
  "core_env \<Rightarrow> store \<Rightarrow> IFieldRo \<Rightarrow> IFieldRo list option \<Rightarrow> error + IFieldRo" where
  "prepareRollupField E D field batchFieldRos =
     (case prepareLookupOptions D field batchFieldRos of
        Inl e \<Rightarrow> Inl e
      | Inr (lookupOptions', lookupFieldRaw, linkFieldRaw) \<Rightarrow>
          (case options field of
             None \<Rightarrow> Inl (BadRequestException ''rollup field options is required'')
           | Some ob \<Rightarrow>
               (case rollup_getParsedValueType E (expression ob) of
                  Inl message \<Rightarrow> Inl (BadRequestException message)
                | Inr (cellValueType', isMultipleCellValue') \<Rightarrow>
                    (let formatting' =
                           (case formatting ob of
                              Some fm \<Rightarrow> Some fm
                            | None \<Rightarrow> getDefaultFormatting E cellValueType');
                         fulfilledOptions =
                           (case formatting' of
                              None \<Rightarrow> ob
                            | Some fm \<Rightarrow> ob\<lparr>formatting := Some fm\<rparr>)
                     in Inr (field\<lparr>name_f :=
                                      (case name_f field of
                                         Some n \<Rightarrow> Some n
                                       | None \<Rightarrow>
                                           Some (name_raw lookupFieldRaw @ '' Rollup (from ''
                                                 @ name_raw linkFieldRaw @ '')'')),
                                    options := Some fulfilledOptions,
                                    lookupOptions := Some lookupOptions',
                                    cellValueType := Some cellValueType',
                                    isMultipleCellValue := isMultipleCellValue'\<rparr>)))))"

text \<open>
  \<open>prepareField\<close>: the lookup test comes first, then the field types in the order
  Rollup, Link, Formula. Only a link field draws ids.
\<close>

definition prepareField ::
  "core_env \<Rightarrow> store \<Rightarrow> id_supply \<Rightarrow> IFieldRo \<Rightarrow> IFieldRo list option
     \<Rightarrow> error + IFieldRo \<times> id_supply" where
  "prepareField E D ids fieldRo batchFieldRos =
     (if isLookup fieldRo = Some True
      then map_sum (\<lambda>e. e) (\<lambda>f. (f, ids)) (prepareLookupField E D fieldRo batchFieldRos)
      else if type_f fieldRo = Rollup
      then map_sum (\<lambda>e. e) (\<lambda>f. (f, ids)) (prepareRollupField E D fieldRo batchFieldRos)
      else if type_f fieldRo = Link
      then prepareLinkField D ids fieldRo
      else if type_f fieldRo = Formula
      then map_sum (\<lambda>e. e) (\<lambda>f. (f, ids)) (prepareFormulaField E D fieldRo batchFieldRos)
      else Inr (fieldRo, ids))"

definition generateSymmetricField :: "store \<Rightarrow> string \<Rightarrow> IFieldRo \<Rightarrow> error + IFieldRo" where
  "generateSymmetricField D tableId' field =
     (case find (\<lambda>t. id_tbl t = tableId') (tableMeta D) of
        None \<Rightarrow> Inl NotFoundError
      | Some tableRow \<Rightarrow>
          (case find (\<lambda>r. tableId r = tableId' \<and> isPrimary r = Some True) (field_tbl D) of
             None \<Rightarrow> Inl NotFoundError
           | Some primary \<Rightarrow>
               (case options field of
                  None \<Rightarrow> Inl TypeError
                | Some ob \<Rightarrow>
                    (let relationship' = map_option RelationshipRevert (relationship ob)
                     in Inr \<lparr>id_f = symmetricFieldId ob,
                             name_f = Some (name_tbl tableRow),
                             type_f = Link,
                             isLookup = None,
                             options = Some
                               \<lparr>relationship = relationship',
                                foreignTableId = Some tableId',
                                lookupFieldId = Some (id_raw primary),
                                dbForeignKeyName = dbForeignKeyName ob,
                                symmetricFieldId = id_f field,
                                expression = None,
                                formatting = None\<rparr>,
                             lookupOptions = None,
                             cellValueType = None,
                             isMultipleCellValue = None\<rparr>))))"

definition createForeignKeyField :: "store \<Rightarrow> string option \<Rightarrow> IFieldRo \<Rightarrow> error + store" where
  "createForeignKeyField D tableId' field =
     (case options field of
        None \<Rightarrow> Inl TypeError
      | Some ob \<Rightarrow>
          if relationship ob \<noteq> Some ManyOne
          then Inl (Error ''only many-one relationship should create foreign key field'')
          else
            (case getDbTableName D tableId' of
               Inl e \<Rightarrow> Inl e
             | Inr dbTableName' \<Rightarrow>
                 Inr (D\<lparr>executed :=
                          executed D
                          @ [AlterTableAddUniqueNullableString dbTableName' (dbForeignKeyName ob)]\<rparr>)))"

definition supplementByCreate :: "store \<Rightarrow> string \<Rightarrow> IFieldRo \<Rightarrow> error + IFieldRo \<times> store" where
  "supplementByCreate D tableId' field =
     (if type_f field \<noteq> Link
      then Inl (Error ''only link field need to create supplement field'')
      else
        (case options field of
           None \<Rightarrow> Inl TypeError
         | Some ob \<Rightarrow>
             (case generateSymmetricField D tableId' field of
                Inl e \<Rightarrow> Inl e
              | Inr symmetricField \<Rightarrow>
                  (case (if (case options symmetricField of
                               None \<Rightarrow> False
                             | Some sob \<Rightarrow> relationship sob = Some ManyOne)
                         then createForeignKeyField D (foreignTableId ob) symmetricField
                         else Inr D) of
                     Inl e \<Rightarrow> Inl e
                   | Inr D1 \<Rightarrow>
                       (case (if relationship ob = Some ManyOne
                              then createForeignKeyField D1 (Some tableId') field
                              else Inr D1) of
                          Inl e \<Rightarrow> Inl e
                        | Inr D2 \<Rightarrow> Inr (symmetricField, D2))))))"


section \<open>Notions used to state the properties\<close>

text \<open>
  A referenced id is unresolved in a store and a batch when no row of the field table has
  it as id and no definition of the batch is filed under it.
\<close>

definition unresolved_in :: "store \<Rightarrow> IFieldRo list option \<Rightarrow> string \<Rightarrow> bool" where
  "unresolved_in D batchFieldRos i =
     ((\<forall>r \<in> set (field_tbl D). id_raw r \<noteq> i) \<and>
      (\<forall>f \<in> set (case batchFieldRos of None \<Rightarrow> [] | Some batch \<Rightarrow> batch).
         instance_key (ByRo f) \<noteq> i))"

text \<open>
  The group id in the spec's words: the text of the hash of the id of the group field of
  level \<open>i\<close>, an underscore, and the stringified group values of the row for the levels
  \<open>0\<close> to \<open>i\<close>, joined by underscores. The group value of a row for a group item is
  the row's value in the column of the item's field.
\<close>

definition group_value :: "field_map \<Rightarrow> 'n row \<Rightarrow> IGroupItem \<Rightarrow> 'n unknown" where
  "group_value fieldInstanceMap r g =
     (case map_of fieldInstanceMap (fieldId_g g) of
        None \<Rightarrow> VUndefined
      | Some fi \<Rightarrow> row_get r (dbFieldName fi))"

definition groupId_spec :: "'n js_env \<Rightarrow> field_map \<Rightarrow> IGroup \<Rightarrow> nat \<Rightarrow> 'n row \<Rightarrow> string" where
  "groupId_spec E fieldInstanceMap groupBy i r =
     String_number E
       (string2Hash E
          (fieldId_g (groupBy ! i) @ ''_''
           @ join ''_''
               (map (\<lambda>g. join_element E (convertValueToStringify E (group_value fieldInstanceMap r g)))
                  (take (i + 1) groupBy))))"

text \<open>
  The assignments of a grouped aggregation in the spec's words: level by level and row by
  row, each statistic field's aggregation gets, under the group id of the row, the
  converted value of the row's statistic. \<open>put_group\<close> is one assignment to the
  \<open>group\<close> object of a field's aggregation (for a field that has no aggregation, where
  the source throws, it changes nothing); \<open>rows_at\<close> are the rows of a level.
\<close>

definition put_group ::
  "(string \<times> 'n raw_aggregation) list \<Rightarrow> string \<times> string \<times> 'n aggregation_value
     \<Rightarrow> (string \<times> 'n raw_aggregation) list" where
  "put_group aggregationByFieldId x =
     (case x of (fid, gid, entry) \<Rightarrow>
        (case map_of aggregationByFieldId fid of
           None \<Rightarrow> aggregationByFieldId
         | Some cur \<Rightarrow>
             assign aggregationByFieldId fid
               (cur\<lparr>group_a :=
                     (case group_a cur of
                        None \<Rightarrow> Some (Map.empty(gid \<mapsto> entry))
                      | Some g \<Rightarrow> Some (g(gid \<mapsto> entry)))\<rparr>)))"

definition statistic_entry ::
  "('n::zero) js_env \<Rightarrow> 'n row \<Rightarrow> IAggregationField \<Rightarrow> 'n aggregation_value" where
  "statistic_entry E r sf =
     \<lparr>value_a =
        formatConvertValue E
          (row_get r (fieldId_s sf @ ''_'' @ StatisticsFunc_text E (statisticFunc_s sf)))
          (Some (statisticFunc_s sf)),
      aggFunc_a = statisticFunc_s sf\<rparr>"

definition rows_at ::
  "'n js_env \<Rightarrow> string \<Rightarrow> field_map \<Rightarrow> field_map \<Rightarrow> IFilter option \<Rightarrow> IGroup
     \<Rightarrow> search option \<Rightarrow> IAggregationField list \<Rightarrow> string option \<Rightarrow> nat \<Rightarrow> 'n row list" where
  "rows_at E t fm fmh flt gb search sfs uid i =
     (case level_rows E t fm fmh flt gb search sfs uid i of Inl e \<Rightarrow> [] | Inr rows \<Rightarrow> rows)"

definition group_assignments ::
  "('n::zero) js_env \<Rightarrow> string \<Rightarrow> field_map \<Rightarrow> field_map \<Rightarrow> IFilter option \<Rightarrow> IGroup
     \<Rightarrow> search option \<Rightarrow> IAggregationField list \<Rightarrow> string option
     \<Rightarrow> (string \<times> string \<times> 'n aggregation_value) list" where
  "group_assignments E t fm fmh flt gb search sfs uid =
     concat (map (\<lambda>i.
       concat (map (\<lambda>r.
         map (\<lambda>sf. (fieldId_s sf, groupId_spec E fm gb i r, statistic_entry E r sf)) sfs)
         (rows_at E t fm fmh flt gb search sfs uid i)))
       [0..<length gb])"

text \<open>
  An aggregation object has a group entry for a field and a group id when the field's
  aggregation has a \<open>group\<close> object with that key.
\<close>

definition has_group :: "(string \<times> 'n raw_aggregation) list \<Rightarrow> string \<Rightarrow> string \<Rightarrow> bool" where
  "has_group aggregationByFieldId fid gid =
     (case map_of aggregationByFieldId fid of
        None \<Rightarrow> False
      | Some a \<Rightarrow>
          (case group_a a of
             None \<Rightarrow> False
           | Some g \<Rightarrow> g gid \<noteq> None))"

text \<open>Every aggregation of an aggregation object is filed under its own field id.\<close>

definition keyed :: "(string \<times> 'n raw_aggregation) list \<Rightarrow> bool" where
  "keyed obj = (\<forall>k a. map_of obj k = Some a \<longrightarrow> fieldId_a a = k)"

section \<open>An instance of the environment, for running the services on examples\<close>

text \<open>Numbers of the instance: the integers and \<open>NaN\<close>.\<close>

datatype number = Finite int | NaN

instantiation number :: zero
begin

definition zero_number :: number where
  "zero_number = Finite 0"

instance ..

end

text \<open>\<open>String(number)\<close> on these numbers: decimal digits, a minus sign, \<open>NaN\<close>.\<close>

definition digit_char :: "int \<Rightarrow> char" where
  "digit_char n = char_of (48 + n)"

function digits_text :: "int \<Rightarrow> string" where
  "digits_text n =
     (if n < 10 then [digit_char n] else digits_text (n div 10) @ [digit_char (n mod 10)])"
  by pat_completeness auto
termination
  by (relation "measure nat") auto

fun number_text :: "number \<Rightarrow> string" where
  "number_text NaN = ''NaN''"
| "number_text (Finite i) = (if i < 0 then CHR ''-'' # digits_text (- i) else digits_text i)"

text \<open>
  The library dayjs is outside the repository. The instance answers
  \<open>dayjs(a).diff(b, 'month')\<close> for calendar dates written \<open>YYYY-MM-DD\<close>, following the
  library's month difference: the whole months between the two dates plus the fraction
  of the month begun, truncated towards zero. A date is (year, month, day); adding
  months keeps the day of the month, cut to the length of the month reached. Other texts
  are outside the instance, which answers \<open>NaN\<close> for them.
\<close>

type_synonym date = "int \<times> int \<times> int"

definition leap_year :: "int \<Rightarrow> bool" where
  "leap_year y = (y mod 4 = 0 \<and> (y mod 100 \<noteq> 0 \<or> y mod 400 = 0))"

definition daysInMonth :: "int \<Rightarrow> int \<Rightarrow> int" where
  "daysInMonth y m =
     (if m = 2 then (if leap_year y then 29 else 28)
      else if m = 4 \<or> m = 6 \<or> m = 9 \<or> m = 11 then 30 else 31)"

text \<open>The number of the day since 1970-01-01.\<close>

definition day_number :: "date \<Rightarrow> int" where
  "day_number dt =
     (case dt of (y, m, d) \<Rightarrow>
        (let y1 = (if m \<le> 2 then y - 1 else y);
             era = y1 div 400;
             yoe = y1 - era * 400;
             mp = (m + 9) mod 12;
             doy = (153 * mp + 2) div 5 + d - 1;
             doe = yoe * 365 + yoe div 4 - yoe div 100 + doy
         in era * 146097 + doe - 719468))"

definition add_months :: "date \<Rightarrow> int \<Rightarrow> date" where
  "add_months dt k =
     (case dt of (y, m, d) \<Rightarrow>
        (let t = y * 12 + (m - 1) + k;
             y2 = t div 12;
             m2 = t mod 12 + 1
         in (y2, m2, min d (daysInMonth y2 m2))))"

text \<open>
  The month difference as a fraction (numerator, positive denominator), for a first date
  whose day of the month is not before the second's.
\<close>

definition monthDiff_aligned :: "date \<Rightarrow> date \<Rightarrow> int \<times> int" where
  "monthDiff_aligned a b =
     (case (a, b) of ((ya, ma, da), (yb, mb, db)) \<Rightarrow>
        (let wholeMonthDiff = (yb - ya) * 12 + (mb - ma);
             anchor = add_months a wholeMonthDiff;
             c = (day_number b - day_number anchor < 0);
             anchor2 = add_months a (wholeMonthDiff + (if c then - 1 else 1));
             den = (if c then day_number anchor - day_number anchor2
                    else day_number anchor2 - day_number anchor)
         in (- (wholeMonthDiff * den + (day_number b - day_number anchor)), den)))"

definition monthDiff :: "date \<Rightarrow> date \<Rightarrow> int \<times> int" where
  "monthDiff a b =
     (case (a, b) of ((ya, ma, da), (yb, mb, db)) \<Rightarrow>
        if da < db
        then (case monthDiff_aligned b a of (p, q) \<Rightarrow> (- p, q))
        else monthDiff_aligned a b)"

definition absFloor :: "int \<times> int \<Rightarrow> int" where
  "absFloor pq = (case pq of (p, q) \<Rightarrow> if p < 0 then - ((- p) div q) else p div q)"

definition digit_value :: "char \<Rightarrow> int option" where
  "digit_value c =
     (let n = (of_char c :: nat) in if 48 \<le> n \<and> n \<le> 57 then Some (int n - 48) else None)"

fun digits_value :: "int \<Rightarrow> string \<Rightarrow> int option" where
  "digits_value acc [] = Some acc"
| "digits_value acc (c # cs) =
     (case digit_value c of None \<Rightarrow> None | Some v \<Rightarrow> digits_value (acc * 10 + v) cs)"

definition parse_date :: "string \<Rightarrow> date option" where
  "parse_date s =
     (if length s = 10 \<and> s ! 4 = CHR ''-'' \<and> s ! 7 = CHR ''-''
      then (case (digits_value 0 (take 4 s), digits_value 0 (take 2 (drop 5 s)),
                  digits_value 0 (drop 8 s)) of
              (Some y, Some m, Some d) \<Rightarrow>
                if 1 \<le> m \<and> m \<le> 12 \<and> 1 \<le> d \<and> d \<le> daysInMonth y m
                then Some (y, m, d) else None
            | _ \<Rightarrow> None)
      else None)"

definition dayjs_diff_month_dates :: "string \<Rightarrow> string \<Rightarrow> number" where
  "dayjs_diff_month_dates a b =
     (case (parse_date a, parse_date b) of
        (Some da, Some db) \<Rightarrow> Finite (absFloor (monthDiff da db))
      | _ \<Rightarrow> NaN)"

text \<open>
  The helpers of the utilities are not among the source files; the instance takes a
  multiplicative hash of the character codes, kept below \<open>2 ^ 32\<close>, for \<open>string2Hash\<close>,
  and the conversion of the service itself for \<open>convertValueToStringify\<close>. The texts of
  the enum members are the member names. The store answers every aggregation query with
  the rows given.
\<close>

definition hash_step :: "int \<Rightarrow> char \<Rightarrow> int" where
  "hash_step h c = (h * 31 + int (of_char c)) mod 4294967296"

fun StatisticsFunc_name :: "StatisticsFunc \<Rightarrow> string" where
  "StatisticsFunc_name DateRangeOfMonths = ''dateRangeOfMonths''"
| "StatisticsFunc_name PercentEmpty = ''percentEmpty''"
| "StatisticsFunc_name PercentFilled = ''percentFilled''"
| "StatisticsFunc_name PercentUnique = ''percentUnique''"
| "StatisticsFunc_name PercentChecked = ''percentChecked''"
| "StatisticsFunc_name PercentUnChecked = ''percentUnChecked''"
| "StatisticsFunc_name (OtherFunc s) = s"

definition example_env :: "(aggregation_query \<Rightarrow> number row list) \<Rightarrow> number js_env" where
  "example_env answer =
     \<lparr>Number_bigint = Finite,
      dayjs_diff_month = dayjs_diff_month_dates,
      String_number = number_text,
      string2Hash = (\<lambda>s. Finite (foldl hash_step 0 s)),
      convertValueToStringify =
        (\<lambda>v. case v of
               VBigInt b \<Rightarrow> CNumber (Finite b)
             | VNumber n \<Rightarrow> CNumber n
             | VDate d \<Rightarrow> CString d
             | VUndefined \<Rightarrow> CNull
             | VNull \<Rightarrow> CNull
             | VString s \<Rightarrow> CString s
             | VBoolean b \<Rightarrow> CString (if b then ''true'' else ''false'')
             | VObject s \<Rightarrow> CString s),
      StatisticsFunc_text = StatisticsFunc_name,
      queryRawUnsafe = (\<lambda>q. Inr (answer q))\<rparr>"


text \<open>
  An instance of what the field supplement service calls outside the source files. The
  texts of the field types are the member names; no default formatting; the references
  of an expression are the texts between braces; fixed value types.
\<close>

fun FieldType_name :: "FieldType \<Rightarrow> string" where
  "FieldType_name Link = ''link''"
| "FieldType_name Formula = ''formula''"
| "FieldType_name Rollup = ''rollup''"
| "FieldType_name (OtherType s) = s"

fun braced :: "string \<Rightarrow> string option \<Rightarrow> string list" where
  "braced [] cur = []"
| "braced (c # cs) None = (if c = CHR ''{'' then braced cs (Some []) else braced cs None)"
| "braced (c # cs) (Some acc) =
     (if c = CHR ''}'' then acc # braced cs None else braced cs (Some (acc @ [c])))"

definition example_core :: core_env where
  "example_core =
     \<lparr>FieldType_text = FieldType_name,
      getDefaultFormatting = (\<lambda>t. None),
      getReferenceFieldIds =
        (\<lambda>e. case e of None \<Rightarrow> None | Some x \<Rightarrow> Some (remdups (braced x None))),
      formula_getParsedValueType = (\<lambda>e m. Inr (CellValueType ''string'', Some False)),
      rollup_getParsedValueType = (\<lambda>e. Inr (CellValueType ''number'', Some False))\<rparr>"

text \<open>
  A store with two tables, Orders and Customers, their primary fields, a number field of
  Orders, and a link field of Customers to Orders.
\<close>

definition example_store :: store where
  "example_store =
     \<lparr>tableMeta =
        [\<lparr>id_tbl = ''tblOrders'', name_tbl = ''Orders'', dbTableName = ''orders''\<rparr>,
         \<lparr>id_tbl = ''tblCustomers'', name_tbl = ''Customers'', dbTableName = ''customers''\<rparr>],
      field_tbl =
        [\<lparr>id_raw = ''fldOrderNo'', name_raw = ''Order no'', tableId = ''tblOrders'',
          type_raw = OtherType ''singleLineText'', options_raw = JsonObject no_options,
          isPrimary = Some True, deletedTime = None,
          cellValueType_raw = CellValueType ''string''\<rparr>,
         \<lparr>id_raw = ''fldAmount'', name_raw = ''Amount'', tableId = ''tblOrders'',
          type_raw = OtherType ''number'', options_raw = JsonObject no_options,
          isPrimary = None, deletedTime = None,
          cellValueType_raw = CellValueType ''number''\<rparr>,
         \<lparr>id_raw = ''fldCustomerName'', name_raw = ''Name'', tableId = ''tblCustomers'',
          type_raw = OtherType ''singleLineText'', options_raw = JsonObject no_options,
          isPrimary = Some True, deletedTime = None,
          cellValueType_raw = CellValueType ''string''\<rparr>,
         \<lparr>id_raw = ''fldCustomerOrders'', name_raw = ''Orders'', tableId = ''tblCustomers'',
          type_raw = Link,
          options_raw = JsonObject
            \<lparr>relationship = Some OneMany, foreignTableId = Some ''tblOrders'',
             lookupFieldId = Some ''fldOrderNo'',
             dbForeignKeyName = Some ''__fk_fldOrderCustomer'',
             symmetricFieldId = Some ''fldOrderCustomer'', expression = None,
             formatting = None\<rparr>,
          isPrimary = None, deletedTime = None,
          cellValueType_raw = CellValueType ''string''\<rparr>],
      executed = []\<rparr>"

definition example_ids :: id_supply where
  "example_ids n = ''fldGenerated'' @ digits_text (int n)"

text \<open>A request to create, in Orders, a link field to Customers.\<close>

definition link_request :: "Relationship \<Rightarrow> IFieldRo" where
  "link_request r =
     \<lparr>id_f = None, name_f = None, type_f = Link, isLookup = None,
      options = Some
        \<lparr>relationship = Some r, foreignTableId = Some ''tblCustomers'',
         lookupFieldId = None, dbForeignKeyName = None, symmetricFieldId = None,
         expression = None, formatting = None\<rparr>,
      lookupOptions = None, cellValueType = None, isMultipleCellValue = None\<rparr>"

text \<open>The link field \<open>prepareField\<close> resolves from that request with the ids of the supply.\<close>

definition resolved_link :: "Relationship \<Rightarrow> string \<Rightarrow> IFieldRo" where
  "resolved_link r fk =
     \<lparr>id_f = Some ''fldGenerated0'', name_f = Some ''Customers'', type_f = Link,
      isLookup = None,
      options = Some
        \<lparr>relationship = Some r, foreignTableId = Some ''tblCustomers'',
         lookupFieldId = Some ''fldCustomerName'', dbForeignKeyName = Some fk,
         symmetricFieldId = Some ''fldGenerated1'', expression = None, formatting = None\<rparr>,
      lookupOptions = None, cellValueType = None, isMultipleCellValue = None\<rparr>"

text \<open>Its symmetric field, in Customers.\<close>

definition symmetric_link :: "Relationship \<Rightarrow> string \<Rightarrow> IFieldRo" where
  "symmetric_link r fk =
     \<lparr>id_f = Some ''fldGenerated1'', name_f = Some ''Orders'', type_f = Link,
      isLookup = None,
      options = Some
        \<lparr>relationship = Some r, foreignTableId = Some ''tblOrders'',
         lookupFieldId = Some ''fldOrderNo'', dbForeignKeyName = Some fk,
         symmetricFieldId = Some ''fldGenerated0'', expression = None, formatting = None\<rparr>,
      lookupOptions = None, cellValueType = None, isMultipleCellValue = None\<rparr>"

text \<open>
  A request to create, in Customers, a lookup of a field of Orders through the link field,
  declared with a field type; and a request to create a formula field.
\<close>

definition lookup_request :: "FieldType \<Rightarrow> string \<Rightarrow> IFieldRo" where
  "lookup_request t source =
     \<lparr>id_f = None, name_f = None, type_f = t, isLookup = Some True,
      options = None,
      lookupOptions = Some
        \<lparr>linkFieldId = ''fldCustomerOrders'', lookupFieldId_lo = source,
         foreignTableId_lo = ''tblOrders'', relationship_lo = None,
         dbForeignKeyName_lo = None\<rparr>,
      cellValueType = None, isMultipleCellValue = None\<rparr>"

definition formula_request :: "string \<Rightarrow> IFieldRo" where
  "formula_request e =
     \<lparr>id_f = None, name_f = Some ''Total'', type_f = Formula, isLookup = None,
      options = Some
        \<lparr>relationship = None, foreignTableId = None, lookupFieldId = None,
         dbForeignKeyName = None, symmetricFieldId = None, expression = Some e,
         formatting = None\<rparr>,
      lookupOptions = None, cellValueType = None, isMultipleCellValue = None\<rparr>"

text \<open>
  A relational store for count queries: the table \<open>orders\<close> has three rows, given by
  their record ids; the conditions built outside the service admit every row.
\<close>

definition example_relation :: "string relation_store" where
  "example_relation =
     \<lparr>table_rows = (\<lambda>t. if t = ''orders'' then [''rec1'', ''rec2'', ''rec3''] else []),
      column_text = (\<lambda>col r. if col = ''orders.__id'' then Some r else None),
      admits = (\<lambda>c r. True)\<rparr>"

text \<open>The field map of Orders, and the same map without the field a view hides.\<close>

definition full_map :: field_map where
  "full_map =
     [(''fldOrderNo'', \<lparr>id_fi = ''fldOrderNo'', dbFieldName = ''order_no''\<rparr>),
      (''fldAmount'', \<lparr>id_fi = ''fldAmount'', dbFieldName = ''amount''\<rparr>)]"

definition visible_map :: field_map where
  "visible_map = [(''fldAmount'', \<lparr>id_fi = ''fldAmount'', dbFieldName = ''amount''\<rparr>)]"

text \<open>
  A grouped aggregation over Orders: the sum of Amount, grouped by the order number. The
  store answers with two groups, \<open>A\<close> with sum 30 and \<open>B\<close> with sum 5.
\<close>

definition grouped_rows :: "number row list" where
  "grouped_rows =
     [[(''order_no'', VString ''A''), (''fldAmount_sum'', VNumber (Finite 30))],
      [(''order_no'', VString ''B''), (''fldAmount_sum'', VNumber (Finite 5))]]"

definition sum_of_amount :: "IAggregationField list" where
  "sum_of_amount = [\<lparr>fieldId_s = ''fldAmount'', statisticFunc_s = OtherFunc ''sum''\<rparr>]"

definition by_order_no :: IGroup where
  "by_order_no = [\<lparr>fieldId_g = ''fldOrderNo'', order_g = ''asc''\<rparr>]"

definition total_of_amount :: "number raw_aggregation list" where
  "total_of_amount =
     [\<lparr>fieldId_a = ''fldAmount'',
       total = Some \<lparr>value_a = CNumber (Finite 35), aggFunc_a = OtherFunc ''sum''\<rparr>,
       group_a = None\<rparr>]"

section \<open>Properties of the value post-processing\<close>

lemma split_without_separator: "sep \<notin> set s \<Longrightarrow> split sep s = [s]"
  by (induction s) auto

lemma split_at_first_separator:
  "sep \<notin> set a \<Longrightarrow> split sep (a @ sep # b) = a # split sep b"
  by (induction a) auto

text \<open>
  Claim C4. For a statistic function among PercentEmpty, PercentFilled, PercentUnique,
  PercentChecked and PercentUnChecked, \<open>formatConvertValue\<close> never yields \<open>null\<close>: its
  result is the converted raw value, with \<open>0\<close> in place of \<open>null\<close>.
\<close>

theorem percent_statistics_never_null:
  "f \<in> {PercentEmpty, PercentFilled, PercentUnique, PercentChecked, PercentUnChecked} \<Longrightarrow>
     formatConvertValue E currentValue (Some f) \<noteq> CNull \<and>
     formatConvertValue E currentValue (Some f) =
       (case convertValueToNumberOrString E currentValue of CNull \<Rightarrow> CNumber 0 | c \<Rightarrow> c)"
  by (auto simp: formatConvertValue_def defaultToZero_def Let_def
           split: converted.splits unknown.splits)

theorem percent_statistics_never_null_witness:
  "PercentFilled \<in> {PercentEmpty, PercentFilled, PercentUnique, PercentChecked, PercentUnChecked} \<and>
   convertValueToNumberOrString (example_env (\<lambda>q. [])) VNull = CNull \<and>
   formatConvertValue (example_env (\<lambda>q. [])) VNull (Some PercentFilled) = CNumber (Finite 0)"
  using percent_statistics_never_null [of PercentFilled "example_env (\<lambda>q. [])" VNull]
  by (simp add: convertValueToNumberOrString_def zero_number_def)

text \<open>
  Claim C9. With the statistic function DateRangeOfMonths, a string raw value
  \<open>max,min\<close> (two non-empty parts around the first comma) is converted to the month
  difference \<open>dayjs(max).diff(min, 'month')\<close>; a value with no comma, or with nothing
  before or after the comma, is converted to \<open>0\<close>. For \<open>2024-03-15,2024-01-10\<close> the
  result is the library's month difference of those two dates, and the month difference
  of the instance for them is \<open>2\<close>.
\<close>

theorem date_range_of_months:
  "(CHR '','' \<notin> set maxTime \<and> CHR '','' \<notin> set minTime \<and> maxTime \<noteq> [] \<and> minTime \<noteq> [] \<longrightarrow>
      formatConvertValue E (VString (maxTime @ '','' @ minTime)) (Some DateRangeOfMonths)
        = CNumber (dayjs_diff_month E maxTime minTime)) \<and>
   (CHR '','' \<notin> set maxTime \<longrightarrow>
      formatConvertValue E (VString maxTime) (Some DateRangeOfMonths) = CNumber 0 \<and>
      formatConvertValue E (VString (maxTime @ '','')) (Some DateRangeOfMonths) = CNumber 0) \<and>
   formatConvertValue E (VString ('','' @ minTime)) (Some DateRangeOfMonths) = CNumber 0 \<and>
   formatConvertValue E (VString ''2024-03-15,2024-01-10'') (Some DateRangeOfMonths)
     = CNumber (dayjs_diff_month E ''2024-03-15'' ''2024-01-10'') \<and>
   dayjs_diff_month_dates ''2024-03-15'' ''2024-01-10'' = Finite 2"
proof -
  have two: "dayjs_diff_month_dates ''2024-03-15'' ''2024-01-10'' = Finite 2"
    by code_simp
  have fmt: "formatConvertValue E (VString s) (Some DateRangeOfMonths)
               = CNumber (calculateDateRangeOfMonths E s)" for s
    by (simp add: formatConvertValue_def defaultToZero_def convertValueToNumberOrString_def)
  have both: "calculateDateRangeOfMonths E (mx @ '','' @ mn) = dayjs_diff_month E mx mn"
    if "CHR '','' \<notin> set mx" "CHR '','' \<notin> set mn" "mx \<noteq> []" "mn \<noteq> []" for mx mn
    using that
    by (simp add: calculateDateRangeOfMonths_def split_at_first_separator
          split_without_separator at_def)
  have none: "calculateDateRangeOfMonths E mx = 0" if "CHR '','' \<notin> set mx" for mx
    using that by (simp add: calculateDateRangeOfMonths_def split_without_separator at_def)
  have nomin: "calculateDateRangeOfMonths E (mx @ '','') = 0" if "CHR '','' \<notin> set mx" for mx
    using that by (simp add: calculateDateRangeOfMonths_def split_at_first_separator at_def)
  have nomax: "calculateDateRangeOfMonths E ('','' @ mn) = 0" for mn
    by (simp add: calculateDateRangeOfMonths_def at_def)
  have ex: "calculateDateRangeOfMonths E ''2024-03-15,2024-01-10''
              = dayjs_diff_month E ''2024-03-15'' ''2024-01-10''"
    using both [of "''2024-03-15''" "''2024-01-10''"] by simp
  show ?thesis
    using both none nomin nomax ex two by (simp add: fmt)
qed

theorem date_range_of_months_witness:
  "CHR '','' \<notin> set ''2024-03-15'' \<and> CHR '','' \<notin> set ''2024-01-10'' \<and>
   ''2024-03-15'' \<noteq> [] \<and> ''2024-01-10'' \<noteq> [] \<and>
   dayjs_diff_month (example_env (\<lambda>q. [])) ''2024-03-15'' ''2024-01-10'' = Finite 2 \<and>
   formatConvertValue (example_env (\<lambda>q. [])) (VString (''2024-03-15'' @ '','' @ ''2024-01-10''))
     (Some DateRangeOfMonths) = CNumber (Finite 2) \<and>
   formatConvertValue (example_env (\<lambda>q. [])) (VString ''2024-03-15'') (Some DateRangeOfMonths)
     = CNumber (Finite 0)"
proof -
  have d: "dayjs_diff_month (example_env (\<lambda>q. [])) ''2024-03-15'' ''2024-01-10'' = Finite 2"
    by code_simp
  show ?thesis
    using date_range_of_months [of "''2024-03-15''" "''2024-01-10''" "example_env (\<lambda>q. [])"] d
    by (simp add: zero_number_def)
qed


section \<open>Properties of link field preparation\<close>

lemma prepareLinkField_result:
  assumes "prepareLinkField D ids field = Inr (a, ids')"
  shows "\<exists>opts oa fid sid.
           options field = Some opts \<and>
           id_f a = Some fid \<and>
           (id_f field = None \<or> id_f field = Some fid) \<and>
           type_f a = type_f field \<and>
           options a = Some oa \<and>
           relationship oa = relationship opts \<and>
           foreignTableId oa = foreignTableId opts \<and>
           symmetricFieldId oa = Some sid \<and>
           dbForeignKeyName oa =
             Some (if relationship opts = Some OneMany then getForeignKeyFieldName sid
                   else if relationship opts = Some ManyOne then getForeignKeyFieldName fid
                   else [])"
proof -
  from assms obtain opts where opts: "options field = Some opts"
    by (auto simp: prepareLinkField_def split: option.splits)
  obtain fid ids1 where fid:
    "(case id_f field of Some i \<Rightarrow> (i, ids) | None \<Rightarrow> generateFieldId ids) = (fid, ids1)"
    by (cases "case id_f field of Some i \<Rightarrow> (i, ids) | None \<Rightarrow> generateFieldId ids") auto
  obtain sid ids2 where sid: "generateFieldId ids1 = (sid, ids2)"
    by (cases "generateFieldId ids1") auto
  have idf: "id_f field = None \<or> id_f field = Some fid"
    using fid by (auto split: option.splits)
  from assms opts fid sid idf show ?thesis
    by (auto simp: prepareLinkField_def Let_def split: option.splits sum.splits
             split del: if_split)
qed

lemma prepareField_link:
  "type_f fieldRo = Link \<Longrightarrow> isLookup fieldRo \<noteq> Some True \<Longrightarrow>
     prepareField E D ids fieldRo batch = prepareLinkField D ids fieldRo"
  by (simp add: prepareField_def)

lemma generateSymmetricField_result:
  assumes "generateSymmetricField D t field = Inr b"
  shows "\<exists>ob lk nm.
           options field = Some ob \<and>
           b = \<lparr>id_f = symmetricFieldId ob, name_f = Some nm, type_f = Link, isLookup = None,
                options = Some
                  \<lparr>relationship = map_option RelationshipRevert (relationship ob),
                   foreignTableId = Some t,
                   lookupFieldId = Some lk,
                   dbForeignKeyName = dbForeignKeyName ob,
                   symmetricFieldId = id_f field,
                   expression = None,
                   formatting = None\<rparr>,
                lookupOptions = None, cellValueType = None, isMultipleCellValue = None\<rparr>"
  using assms
  by (auto simp: generateSymmetricField_def Let_def split: option.splits)

lemma supplementByCreate_symmetric:
  assumes "supplementByCreate D t field = Inr (b, D')"
  shows "generateSymmetricField D t field = Inr b"
  using assms
  by (auto simp: supplementByCreate_def split: if_splits option.splits sum.splits)

text \<open>
  Claim C1. A link field that \<open>prepareField\<close> resolves from a creation request and the
  symmetric field that \<open>supplementByCreate\<close> returns for it refer to each other by
  \<open>symmetricFieldId\<close>, have the same \<open>dbForeignKeyName\<close>, the symmetric field's
  \<open>foreignTableId\<close> is the table of the original field, and its relationship is the
  mirror of the field's relationship.
\<close>

theorem link_pair_symmetric:
  assumes "type_f fieldRo = Link" and "isLookup fieldRo \<noteq> Some True"
    and "prepareField E D ids fieldRo batch = Inr (a, ids')"
    and "supplementByCreate D' tableId' a = Inr (b, D'')"
  shows "\<exists>fid sid fk oa ob.
           id_f a = Some fid \<and> id_f b = Some sid \<and>
           options a = Some oa \<and> options b = Some ob \<and>
           symmetricFieldId oa = Some sid \<and>
           symmetricFieldId ob = Some fid \<and>
           dbForeignKeyName oa = Some fk \<and> dbForeignKeyName ob = Some fk \<and>
           foreignTableId ob = Some tableId' \<and>
           relationship ob = map_option RelationshipRevert (relationship oa)"
proof -
  from assms(1-3) have "prepareLinkField D ids fieldRo = Inr (a, ids')"
    by (simp add: prepareField_link)
  from prepareLinkField_result [OF this] obtain oa fid sid fk where
    a: "id_f a = Some fid" "options a = Some oa" "symmetricFieldId oa = Some sid"
       "dbForeignKeyName oa = Some fk"
    by blast
  from supplementByCreate_symmetric [OF assms(4)]
  have "generateSymmetricField D' tableId' a = Inr b" .
  from generateSymmetricField_result [OF this] a
  show ?thesis by auto
qed


theorem link_pair_symmetric_witness:
  "type_f (link_request ManyOne) = Link \<and> isLookup (link_request ManyOne) \<noteq> Some True \<and>
   map_sum (\<lambda>e. e) fst
     (prepareField example_core example_store example_ids (link_request ManyOne) None)
     = Inr (resolved_link ManyOne ''__fk_fldGenerated0'') \<and>
   map_sum (\<lambda>e. e) fst
     (supplementByCreate example_store ''tblOrders'' (resolved_link ManyOne ''__fk_fldGenerated0''))
     = Inr (symmetric_link OneMany ''__fk_fldGenerated0'') \<and>
   (\<exists>oa ob.
      options (resolved_link ManyOne ''__fk_fldGenerated0'') = Some oa \<and>
      options (symmetric_link OneMany ''__fk_fldGenerated0'') = Some ob \<and>
      symmetricFieldId oa = id_f (symmetric_link OneMany ''__fk_fldGenerated0'') \<and>
      symmetricFieldId ob = id_f (resolved_link ManyOne ''__fk_fldGenerated0'') \<and>
      dbForeignKeyName ob = dbForeignKeyName oa \<and>
      foreignTableId ob = Some ''tblOrders'' \<and>
      relationship ob = map_option RelationshipRevert (relationship oa))"
proof -
  have t: "type_f (link_request ManyOne) = Link" "isLookup (link_request ManyOne) \<noteq> Some True"
    by (simp_all add: link_request_def)
  have p: "map_sum (\<lambda>e. e) fst
     (prepareField example_core example_store example_ids (link_request ManyOne) None)
     = Inr (resolved_link ManyOne ''__fk_fldGenerated0'')"
    by code_simp
  then obtain ids' where p': "prepareField example_core example_store example_ids
      (link_request ManyOne) None = Inr (resolved_link ManyOne ''__fk_fldGenerated0'', ids')"
    by (cases "prepareField example_core example_store example_ids (link_request ManyOne) None")
       auto
  have s: "map_sum (\<lambda>e. e) fst
     (supplementByCreate example_store ''tblOrders'' (resolved_link ManyOne ''__fk_fldGenerated0''))
     = Inr (symmetric_link OneMany ''__fk_fldGenerated0'')"
    by code_simp
  then obtain D'' where s': "supplementByCreate example_store ''tblOrders''
      (resolved_link ManyOne ''__fk_fldGenerated0'')
      = Inr (symmetric_link OneMany ''__fk_fldGenerated0'', D'')"
    by (cases "supplementByCreate example_store ''tblOrders''
                 (resolved_link ManyOne ''__fk_fldGenerated0'')") auto
  from link_pair_symmetric [OF t p' s'] t p s show ?thesis
    by auto
qed

text \<open>
  Claim C3. For a link field resolved by \<open>prepareField\<close>, the foreign key column name
  is \<open>getForeignKeyFieldName\<close> of the field's own id when the relationship is ManyOne,
  and of the symmetric field's id when it is OneMany.
\<close>

theorem foreign_key_name_derivation:
  assumes "type_f fieldRo = Link" and "isLookup fieldRo \<noteq> Some True"
    and "prepareField E D ids fieldRo batch = Inr (a, ids')"
  shows "\<exists>fid sid oa.
           id_f a = Some fid \<and> options a = Some oa \<and> symmetricFieldId oa = Some sid \<and>
           (relationship oa = Some ManyOne \<longrightarrow>
              dbForeignKeyName oa = Some (getForeignKeyFieldName fid)) \<and>
           (relationship oa = Some OneMany \<longrightarrow>
              dbForeignKeyName oa = Some (getForeignKeyFieldName sid))"
proof -
  from assms have "prepareLinkField D ids fieldRo = Inr (a, ids')"
    by (simp add: prepareField_link)
  from prepareLinkField_result [OF this] show ?thesis
    by auto
qed

theorem foreign_key_name_derivation_witness:
  "type_f (link_request OneMany) = Link \<and> isLookup (link_request OneMany) \<noteq> Some True \<and>
   map_sum (\<lambda>e. e) fst
     (prepareField example_core example_store example_ids (link_request ManyOne) None)
     = Inr (resolved_link ManyOne (getForeignKeyFieldName ''fldGenerated0'')) \<and>
   map_sum (\<lambda>e. e) fst
     (prepareField example_core example_store example_ids (link_request OneMany) None)
     = Inr (resolved_link OneMany (getForeignKeyFieldName ''fldGenerated1'')) \<and>
   (\<exists>oa. options (resolved_link OneMany (getForeignKeyFieldName ''fldGenerated1'')) = Some oa \<and>
         relationship oa = Some OneMany \<and> symmetricFieldId oa = Some ''fldGenerated1'' \<and>
         dbForeignKeyName oa = Some ''__fk_fldGenerated1'')"
proof -
  have t: "type_f (link_request OneMany) = Link" "isLookup (link_request OneMany) \<noteq> Some True"
    by (simp_all add: link_request_def)
  have m: "map_sum (\<lambda>e. e) fst
     (prepareField example_core example_store example_ids (link_request ManyOne) None)
     = Inr (resolved_link ManyOne (getForeignKeyFieldName ''fldGenerated0''))"
    by code_simp
  have p: "map_sum (\<lambda>e. e) fst
     (prepareField example_core example_store example_ids (link_request OneMany) None)
     = Inr (resolved_link OneMany (getForeignKeyFieldName ''fldGenerated1''))"
    by code_simp
  then obtain ids' where p': "prepareField example_core example_store example_ids
      (link_request OneMany) None
      = Inr (resolved_link OneMany (getForeignKeyFieldName ''fldGenerated1''), ids')"
    by (cases "prepareField example_core example_store example_ids (link_request OneMany) None")
       auto
  from foreign_key_name_derivation [OF t p'] t m p show ?thesis
    by (auto simp: resolved_link_def getForeignKeyFieldName_def)
qed

text \<open>
  Claim C10. For a link field with relationship ManyMany, \<open>prepareField\<close> sets
  \<open>dbForeignKeyName\<close> to the empty string, the symmetric field is ManyMany with the
  same empty name, and \<open>supplementByCreate\<close> returns the symmetric field with the store
  as it was: no foreign key column is added to either table.
\<close>

theorem many_many_no_foreign_key:
  assumes "type_f fieldRo = Link" and "isLookup fieldRo \<noteq> Some True"
    and "options fieldRo = Some opts" and "relationship opts = Some ManyMany"
    and "prepareField E D ids fieldRo batch = Inr (a, ids')"
  shows "\<exists>oa. options a = Some oa \<and> relationship oa = Some ManyMany \<and>
              dbForeignKeyName oa = Some [] \<and>
              supplementByCreate D' tableId' a =
                (case generateSymmetricField D' tableId' a of
                   Inl e \<Rightarrow> Inl e
                 | Inr b \<Rightarrow> Inr (b, D')) \<and>
              (\<forall>b. generateSymmetricField D' tableId' a = Inr b \<longrightarrow>
                 (\<exists>ob. options b = Some ob \<and> relationship ob = Some ManyMany \<and>
                       dbForeignKeyName ob = Some []))"
proof -
  from assms have "prepareLinkField D ids fieldRo = Inr (a, ids')"
    by (simp add: prepareField_link)
  from prepareLinkField_result [OF this] assms(1,3,4) obtain oa where
    oa: "options a = Some oa" "relationship oa = Some ManyMany" "dbForeignKeyName oa = Some []"
        "type_f a = Link"
    by auto
  have sym: "\<exists>ob. options b = Some ob \<and> relationship ob = Some ManyMany \<and>
                  dbForeignKeyName ob = Some []"
    if "generateSymmetricField D' tableId' a = Inr b" for b
    using generateSymmetricField_result [OF that] oa by auto
  have "supplementByCreate D' tableId' a =
          (case generateSymmetricField D' tableId' a of
             Inl e \<Rightarrow> Inl e
           | Inr b \<Rightarrow> Inr (b, D'))"
    using oa sym by (auto simp: supplementByCreate_def split: sum.splits option.splits)
  with oa sym show ?thesis by auto
qed

theorem many_many_no_foreign_key_witness:
  "type_f (link_request ManyMany) = Link \<and> isLookup (link_request ManyMany) \<noteq> Some True \<and>
   map_option relationship (options (link_request ManyMany)) = Some (Some ManyMany) \<and>
   map_sum (\<lambda>e. e) fst
     (prepareField example_core example_store example_ids (link_request ManyMany) None)
     = Inr (resolved_link ManyMany []) \<and>
   supplementByCreate example_store ''tblOrders'' (resolved_link ManyMany [])
     = Inr (symmetric_link ManyMany [], example_store) \<and>
   executed example_store = []"
proof -
  have t: "type_f (link_request ManyMany) = Link" "isLookup (link_request ManyMany) \<noteq> Some True"
    by (simp_all add: link_request_def)
  obtain opts where o: "options (link_request ManyMany) = Some opts"
      "relationship opts = Some ManyMany"
    by (simp add: link_request_def)
  have p: "map_sum (\<lambda>e. e) fst
     (prepareField example_core example_store example_ids (link_request ManyMany) None)
     = Inr (resolved_link ManyMany [])"
    by code_simp
  then obtain ids' where p': "prepareField example_core example_store example_ids
      (link_request ManyMany) None = Inr (resolved_link ManyMany [], ids')"
    by (cases "prepareField example_core example_store example_ids (link_request ManyMany) None")
       auto
  have g: "generateSymmetricField example_store ''tblOrders'' (resolved_link ManyMany [])
             = Inr (symmetric_link ManyMany [])"
    by code_simp
  have e: "executed example_store = []"
    by (simp add: example_store_def)
  from many_many_no_foreign_key [OF t o p', of example_store "''tblOrders''"] g t o p e
  show ?thesis
    by auto
qed



section \<open>Properties of lookup and formula preparation\<close>

lemma map_of_assign: "map_of (assign obj k v) = (map_of obj)(k \<mapsto> v)"
  by (induction obj k v rule: assign.induct) auto

lemma map_of_foldl_assign:
  "map_of (foldl (\<lambda>obj x. assign obj (key x) x) obj xs) k = None
     \<longleftrightarrow> map_of obj k = None \<and> k \<notin> key ` set xs"
  by (induction xs arbitrary: obj) (auto simp: map_of_assign)

lemma map_of_keyBy_None: "map_of (keyBy key xs) k = None \<longleftrightarrow> k \<notin> key ` set xs"
  by (simp add: keyBy_def map_of_foldl_assign)

lemma formulaFieldMap_unresolved:
  "i \<in> set fieldIds \<Longrightarrow>
   map_of (formulaFieldMap D fieldIds batch) i = None \<longleftrightarrow> unresolved_in D batch i"
proof -
  assume i: "i \<in> set fieldIds"
  have "map_of (formulaFieldMap D fieldIds batch) i = None \<longleftrightarrow>
          (\<forall>r \<in> set (field_tbl D). id_raw r \<in> set fieldIds \<longrightarrow> instance_key (ByRaw r) \<noteq> i) \<and>
          (\<forall>f \<in> set (case batch of None \<Rightarrow> [] | Some b \<Rightarrow> b). instance_key (ByRo f) \<noteq> i)"
    by (cases batch) (auto simp: formulaFieldMap_def map_of_keyBy_None image_iff ball_Un)
  also have "\<dots> \<longleftrightarrow>
          (\<forall>r \<in> set (field_tbl D). id_raw r \<noteq> i) \<and>
          (\<forall>f \<in> set (case batch of None \<Rightarrow> [] | Some b \<Rightarrow> b). instance_key (ByRo f) \<noteq> i)"
    using i by auto
  finally show ?thesis by (simp add: unresolved_in_def)
qed

lemma find_cong_set: "(\<And>x. x \<in> set xs \<Longrightarrow> P x = Q x) \<Longrightarrow> find P xs = find Q xs"
  by (induction xs) auto

text \<open>
  Claim C7. For a lookup definition (\<open>isLookup\<close> is true) whose lookup options resolve
  and whose declared field type differs from the type of the source field found,
  \<open>prepareField\<close> fails with a \<open>BadRequestException\<close> whose message gives the declared
  type and the source field's type, and no field is returned. The source field is a row
  of the field table whose id is the \<open>lookupFieldId\<close> of the definition.
\<close>

theorem lookup_type_mismatch:
  assumes "isLookup fieldRo = Some True"
    and "prepareLookupOptions D fieldRo batch = Inr (lo, lookupFieldRaw, linkFieldRaw)"
    and "type_raw lookupFieldRaw \<noteq> type_f fieldRo"
  shows "prepareField E D ids fieldRo batch =
           Inl (BadRequestException
                  (''Current field type '' @ FieldType_text E (type_f fieldRo)
                   @ '' is not equal to lookup field (''
                   @ FieldType_text E (type_raw lookupFieldRaw) @ '')''))
         \<and> lookupFieldRaw \<in> set (field_tbl D)
         \<and> map_option lookupFieldId_lo (lookupOptions fieldRo) = Some (id_raw lookupFieldRaw)"
proof -
  have "prepareField E D ids fieldRo batch =
           Inl (BadRequestException
                  (''Current field type '' @ FieldType_text E (type_f fieldRo)
                   @ '' is not equal to lookup field (''
                   @ FieldType_text E (type_raw lookupFieldRaw) @ '')''))"
    using assms by (simp add: prepareField_def prepareLookupField_def)
  moreover from assms(2) obtain lo' where lo': "lookupOptions fieldRo = Some lo'"
    and found: "find (\<lambda>r. id_raw r = lookupFieldId_lo lo' \<and> deletedTime r = None) (field_tbl D)
                  = Some lookupFieldRaw"
    by (auto simp: prepareLookupOptions_def Let_def
             split: option.splits sum.splits if_splits json_column.splits)
  from found have "lookupFieldRaw \<in> set (field_tbl D)" "id_raw lookupFieldRaw = lookupFieldId_lo lo'"
    by (auto simp: find_Some_iff)
  ultimately show ?thesis
    using lo' by simp
qed

theorem lookup_type_mismatch_witness:
  "isLookup (lookup_request (OtherType ''singleLineText'') ''fldAmount'') = Some True \<and>
   map_sum (\<lambda>e. e) (\<lambda>(lo, source, link). (id_raw source, type_raw source))
     (prepareLookupOptions example_store
        (lookup_request (OtherType ''singleLineText'') ''fldAmount'') None)
     = Inr (''fldAmount'', OtherType ''number'') \<and>
   OtherType ''number'' \<noteq> type_f (lookup_request (OtherType ''singleLineText'') ''fldAmount'') \<and>
   prepareField example_core example_store example_ids
       (lookup_request (OtherType ''singleLineText'') ''fldAmount'') None
     = Inl (BadRequestException
              ''Current field type singleLineText is not equal to lookup field (number)'')"
proof -
  let ?req = "lookup_request (OtherType ''singleLineText'') ''fldAmount''"
  have l: "isLookup ?req = Some True"
    by (simp add: lookup_request_def)
  have s: "map_sum (\<lambda>e. e) (\<lambda>(lo, source, link). (id_raw source, type_raw source))
     (prepareLookupOptions example_store ?req None) = Inr (''fldAmount'', OtherType ''number'')"
    by code_simp
  then obtain lo source link where
    p: "prepareLookupOptions example_store ?req None = Inr (lo, source, link)"
    and ty: "type_raw source = OtherType ''number''"
    by (cases "prepareLookupOptions example_store ?req None") auto
  have d: "type_raw source \<noteq> type_f ?req"
    using ty by (simp add: lookup_request_def)
  from lookup_type_mismatch [OF l p d, of example_core example_ids]
  have "prepareField example_core example_store example_ids ?req None =
          Inl (BadRequestException
                 (''Current field type '' @ FieldType_text example_core (type_f ?req)
                  @ '' is not equal to lookup field (''
                  @ FieldType_text example_core (type_raw source) @ '')''))"
    by (rule conjunct1)
  then have "prepareField example_core example_store example_ids ?req None =
          Inl (BadRequestException
                 ''Current field type singleLineText is not equal to lookup field (number)'')"
    by (simp add: ty example_core_def lookup_request_def)
  with l s show ?thesis
    by (simp add: lookup_request_def)
qed

text \<open>
  The reference test of \<open>prepareFormulaField\<close> finds the ids that are unresolved and
  do not name a member of \<open>Object.prototype\<close>.
\<close>

lemma formula_reference_test:
  "find (\<lambda>i. \<not> object_truthy (formulaFieldMap D fieldIds batch) i) fieldIds
     = find (\<lambda>i. unresolved_in D batch i \<and> i \<notin> set Object_prototype) fieldIds"
  by (rule find_cong_set) (simp add: object_truthy_def formulaFieldMap_unresolved)

text \<open>
  Where the reference test works: when the first referenced id that is unresolved and
  names no member of \<open>Object.prototype\<close> is not the empty string, \<open>prepareField\<close>
  fails with a \<open>BadRequestException\<close> whose message lists the ids the expression
  references, joined by commas; the unresolved id is one of them.
\<close>

lemma formula_unresolved_reference:
  assumes "type_f fieldRo = Formula" and "isLookup fieldRo \<noteq> Some True"
    and "options fieldRo = Some ob"
    and "getReferenceFieldIds E (expression ob) = Some fieldIds"
    and "find (\<lambda>i. unresolved_in D batch i \<and> i \<notin> set Object_prototype) fieldIds
           = Some unresolved"
    and "unresolved \<noteq> []"
  shows "prepareField E D ids fieldRo batch =
           Inl (BadRequestException
                  (''formula field reference '' @ join '','' fieldIds @ '' not found''))
         \<and> unresolved \<in> set fieldIds \<and> unresolved_in D batch unresolved"
proof -
  from assms(5)
  have "find (\<lambda>i. \<not> object_truthy (formulaFieldMap D fieldIds batch) i) fieldIds
          = Some unresolved"
    by (simp add: formula_reference_test)
  moreover have "unresolved \<in> set fieldIds \<and> unresolved_in D batch unresolved"
    using assms(5) by (auto simp: find_Some_iff)
  ultimately show ?thesis
    using assms(1-4,6)
    by (simp add: prepareField_def prepareFormulaField_def)
qed

lemma formula_unresolved_reference_example:
  "getReferenceFieldIds example_core (Some ''{fldAmount} * {fldMissing}'')
     = Some [''fldAmount'', ''fldMissing''] \<and>
   find (\<lambda>i. unresolved_in example_store None i \<and> i \<notin> set Object_prototype)
     [''fldAmount'', ''fldMissing''] = Some ''fldMissing'' \<and>
   prepareField example_core example_store example_ids
       (formula_request ''{fldAmount} * {fldMissing}'') None
     = Inl (BadRequestException ''formula field reference fldAmount,fldMissing not found'')"
proof -
  let ?req = "formula_request ''{fldAmount} * {fldMissing}''"
  have t: "type_f ?req = Formula" "isLookup ?req \<noteq> Some True"
    by (simp_all add: formula_request_def)
  obtain ob where o: "options ?req = Some ob" "expression ob = Some ''{fldAmount} * {fldMissing}''"
    by (simp add: formula_request_def)
  have g: "getReferenceFieldIds example_core (Some ''{fldAmount} * {fldMissing}'')
             = Some [''fldAmount'', ''fldMissing'']"
    by code_simp
  have g': "getReferenceFieldIds example_core (expression ob) = Some [''fldAmount'', ''fldMissing'']"
    using g o by simp
  have u: "find (\<lambda>i. unresolved_in example_store None i \<and> i \<notin> set Object_prototype)
             [''fldAmount'', ''fldMissing''] = Some ''fldMissing''"
    by (simp add: unresolved_in_def example_store_def Object_prototype_def)
  have n: "''fldMissing'' \<noteq> []" by simp
  from formula_unresolved_reference [OF t o(1) g' u n, of example_ids] g u
  show ?thesis by simp
qed

text \<open>
  Where the reference test passes an unresolved id: when every referenced id is resolved
  or names a member of \<open>Object.prototype\<close>, or the first that is neither is the empty
  string, no \<open>BadRequestException\<close> is raised for the reference and the outcome of
  \<open>prepareField\<close> is that of the value type inference on the field map.
\<close>

lemma formula_reference_test_passed:
  assumes "type_f fieldRo = Formula" and "isLookup fieldRo \<noteq> Some True"
    and "options fieldRo = Some ob"
    and "getReferenceFieldIds E (expression ob) = Some fieldIds"
    and "find (\<lambda>i. unresolved_in D batch i \<and> i \<notin> set Object_prototype) fieldIds
           \<in> {None, Some []}"
  shows "prepareField E D ids fieldRo batch =
           (case formula_getParsedValueType E (expression ob)
                   (formulaFieldMap D fieldIds batch) of
              Inl e \<Rightarrow> Inl e
            | Inr (cellValueType', isMultipleCellValue') \<Rightarrow>
                Inr (fieldRo
                       \<lparr>options := Some
                          (case (case formatting ob of
                                   Some fm \<Rightarrow> Some fm
                                 | None \<Rightarrow> getDefaultFormatting E cellValueType') of
                             None \<Rightarrow> ob
                           | Some fm \<Rightarrow> ob\<lparr>formatting := Some fm\<rparr>),
                        cellValueType := Some cellValueType',
                        isMultipleCellValue := isMultipleCellValue'\<rparr>, ids))"
proof -
  from assms(5)
  have "find (\<lambda>i. \<not> object_truthy (formulaFieldMap D fieldIds batch) i) fieldIds
          \<in> {None, Some []}"
    by (simp add: formula_reference_test)
  then have "\<not> (case find (\<lambda>i. \<not> object_truthy (formulaFieldMap D fieldIds batch) i) fieldIds of
                 None \<Rightarrow> False
               | Some unresolved \<Rightarrow> unresolved \<noteq> [])"
    by auto
  with assms(1-4) show ?thesis
    by (simp add: prepareField_def prepareFormulaField_def Let_def
             split: sum.splits prod.splits)
qed

text \<open>
  Claim C8 at two failing inputs. The formula \<open>{hasOwnProperty}\<close> references an id that
  no row of the field table and no definition of the batch has, and so does the formula
  \<open>{fldAmount} * {}\<close> with the empty id. In both cases \<open>prepareField\<close> raises no
  \<open>BadRequestException\<close> for the reference: with any value type inference \<open>infer\<close>
  its outcome is the outcome of \<open>infer\<close> on the field map, a resolved field when the
  inference returns. The parser of the instance reads the references between braces.
\<close>

theorem unresolved_formula_reference_accepted:
  "getReferenceFieldIds example_core (Some ''{hasOwnProperty}'') = Some [''hasOwnProperty''] \<and>
   unresolved_in example_store None ''hasOwnProperty'' \<and>
   prepareField (example_core\<lparr>formula_getParsedValueType := infer\<rparr>) example_store example_ids
       (formula_request ''{hasOwnProperty}'') None
     = (case infer (Some ''{hasOwnProperty}'')
               (formulaFieldMap example_store [''hasOwnProperty''] None) of
          Inl e \<Rightarrow> Inl e
        | Inr (c, m) \<Rightarrow>
            Inr ((formula_request ''{hasOwnProperty}'')
                   \<lparr>cellValueType := Some c, isMultipleCellValue := m\<rparr>, example_ids)) \<and>
   getReferenceFieldIds example_core (Some ''{fldAmount} * {}'') = Some [''fldAmount'', []] \<and>
   unresolved_in example_store None [] \<and>
   prepareField (example_core\<lparr>formula_getParsedValueType := infer\<rparr>) example_store example_ids
       (formula_request ''{fldAmount} * {}'') None
     = (case infer (Some ''{fldAmount} * {}'')
               (formulaFieldMap example_store [''fldAmount'', []] None) of
          Inl e \<Rightarrow> Inl e
        | Inr (c, m) \<Rightarrow>
            Inr ((formula_request ''{fldAmount} * {}'')
                   \<lparr>cellValueType := Some c, isMultipleCellValue := m\<rparr>, example_ids))"
proof -
  let ?E = "example_core\<lparr>formula_getParsedValueType := infer\<rparr>"
  have g1: "getReferenceFieldIds example_core (Some ''{hasOwnProperty}'')
              = Some [''hasOwnProperty'']"
    by code_simp
  have g2: "getReferenceFieldIds example_core (Some ''{fldAmount} * {}'')
              = Some [''fldAmount'', []]"
    by code_simp
  have u1: "unresolved_in example_store None ''hasOwnProperty''"
    by (simp add: unresolved_in_def example_store_def)
  have u2: "unresolved_in example_store None []"
    by (simp add: unresolved_in_def example_store_def)
  have f1: "find (\<lambda>i. unresolved_in example_store None i \<and> i \<notin> set Object_prototype)
              [''hasOwnProperty''] \<in> {None, Some []}"
    by (simp add: Object_prototype_def)
  have f2: "find (\<lambda>i. unresolved_in example_store None i \<and> i \<notin> set Object_prototype)
              [''fldAmount'', []] \<in> {None, Some []}"
    by (simp add: unresolved_in_def example_store_def Object_prototype_def)
  have t: "type_f (formula_request e) = Formula" "isLookup (formula_request e) \<noteq> Some True" for e
    by (simp_all add: formula_request_def)
  have d: "getDefaultFormatting ?E = (\<lambda>t. None)" "getReferenceFieldIds ?E = getReferenceFieldIds example_core"
    "formula_getParsedValueType ?E = infer"
    by (simp_all add: example_core_def)
  have p1: "prepareField ?E example_store example_ids (formula_request ''{hasOwnProperty}'') None
     = (case infer (Some ''{hasOwnProperty}'')
               (formulaFieldMap example_store [''hasOwnProperty''] None) of
          Inl e \<Rightarrow> Inl e
        | Inr (c, m) \<Rightarrow>
            Inr ((formula_request ''{hasOwnProperty}'')
                   \<lparr>cellValueType := Some c, isMultipleCellValue := m\<rparr>, example_ids))"
    using formula_reference_test_passed [OF t, of "''{hasOwnProperty}''" _ ?E
        "[''hasOwnProperty'']" example_store None example_ids] g1 f1
    by (simp add: d formula_request_def split: sum.splits)
  have p2: "prepareField ?E example_store example_ids (formula_request ''{fldAmount} * {}'') None
     = (case infer (Some ''{fldAmount} * {}'')
               (formulaFieldMap example_store [''fldAmount'', []] None) of
          Inl e \<Rightarrow> Inl e
        | Inr (c, m) \<Rightarrow>
            Inr ((formula_request ''{fldAmount} * {}'')
                   \<lparr>cellValueType := Some c, isMultipleCellValue := m\<rparr>, example_ids))"
    using formula_reference_test_passed [OF t, of "''{fldAmount} * {}''" _ ?E
        "[''fldAmount'', []]" example_store None example_ids] g2 f2
    by (simp add: d formula_request_def split: sum.splits)
  from g1 g2 u1 u2 p1 p2 show ?thesis
    by (intro conjI)
qed

text \<open>
  The two inputs with the inference of the instance, which returns a text type, and with
  an inference that throws: the first call returns a field, the second fails with the
  error of the inference, not with a \<open>BadRequestException\<close>.
\<close>

theorem unresolved_formula_reference_accepted_witness:
  "unresolved_in example_store None ''hasOwnProperty'' \<and>
   unresolved_in example_store None [] \<and>
   prepareField example_core example_store example_ids
       (formula_request ''{hasOwnProperty}'') None
     = Inr ((formula_request ''{hasOwnProperty}'')
              \<lparr>cellValueType := Some (CellValueType ''string''),
               isMultipleCellValue := Some False\<rparr>, example_ids) \<and>
   prepareField
       (example_core\<lparr>formula_getParsedValueType := (\<lambda>e m. Inl (Error ''inference''))\<rparr>)
       example_store example_ids (formula_request ''{fldAmount} * {}'') None
     = Inl (Error ''inference'')"
proof -
  have e: "example_core\<lparr>formula_getParsedValueType :=
             (\<lambda>e m. Inr (CellValueType ''string'', Some False))\<rparr> = example_core"
    by (simp add: example_core_def)
  from unresolved_formula_reference_accepted
         [of "\<lambda>e m. Inr (CellValueType ''string'', Some False)"]
       unresolved_formula_reference_accepted [of "\<lambda>e m. Inl (Error ''inference'')"]
  show ?thesis
    by (simp add: e)
qed


section \<open>Properties of the query compilers\<close>

text \<open>
  In both compilers a search whose flag is not set leaves the query as without search, and
  the row count compiler compiles an applied search over the map without hidden fields.
\<close>

lemma search_flag_gates_aggregation:
  "\<not> search_applies search \<Longrightarrow>
     handleAggregation_query t fm fmh flt gb search sfs uid
       = handleAggregation_query t fm fmh flt gb None sfs uid"
  by (cases search) (simp_all add: handleAggregation_query_def)

lemma search_flag_gates_row_count:
  "\<not> search_applies search \<Longrightarrow>
     handleRowCount_query tid t fm fmh flt cand sel ids search uid
       = handleRowCount_query tid t fm fmh flt cand sel ids None uid"
  by (cases search) (simp_all add: handleRowCount_query_def)

lemma row_count_search_over_visible_fields:
  "search_applies (Some s) \<Longrightarrow>
     SearchQuery fmh s \<in> set (where_q (handleRowCount_query tid t fm fmh flt cand sel ids (Some s) uid)) \<and>
     (\<forall>m s'. SearchQuery m s' \<in> set (where_q (handleRowCount_query tid t fm fmh flt cand sel ids (Some s) uid))
         \<longrightarrow> m = fmh \<and> s' = s)"
  by (auto simp: handleRowCount_query_def split: option.splits)

text \<open>The aggregation compiler compiles an applied search over the full field map.\<close>

lemma aggregation_search_over_full_map:
  "search_applies (Some s) \<Longrightarrow>
     with_where (handleAggregation_query t fm fmh flt gb (Some s) sfs uid)
       = (case flt of None \<Rightarrow> [] | Some f \<Rightarrow> [FilterQuery fm f uid]) @ [SearchQuery fm s]"
  by (simp add: handleAggregation_query_def Let_def)

text \<open>
  Claim C5 at a failing input: a view hides \<open>fldOrderNo\<close>, the search flag is set. The
  aggregation query searches over the full field map, hidden field included; the row
  count query searches over the map without it.
\<close>

theorem aggregation_search_ignores_hidden_fields:
  "search_applies (Some (''smith'', None, Some True)) \<and>
   full_map \<noteq> visible_map \<and>
   with_where (handleAggregation_query ''orders'' full_map visible_map None None
                 (Some (''smith'', None, Some True))
                 [\<lparr>fieldId_s = ''fldAmount'', statisticFunc_s = OtherFunc ''sum''\<rparr>] None)
     = [SearchQuery full_map (''smith'', None, Some True)] \<and>
   where_q (handleRowCount_query ''tblOrders'' ''orders'' full_map visible_map None None None None
              (Some (''smith'', None, Some True)) None)
     = [SearchQuery visible_map (''smith'', None, Some True)]"
  by (simp add: handleAggregation_query_def handleRowCount_query_def full_map_def visible_map_def Let_def)

text \<open>
  Claim C6. With a non-empty \<open>selectedRecordIds\<close>, the row count is the number of rows
  the compiled query admits. \<open>filterLinkCellCandidate\<close> is set when the test of the
  source holds of it, that is, when it is truthy. When it is set the query has the
  condition \<open>whereNotIn(__id, ids)\<close> and no counted row has one of those ids; when it
  is not set (whatever \<open>filterLinkCellSelected\<close> is) the query has the condition
  \<open>whereIn(__id, ids)\<close> and every counted row has one of those ids. An absent candidate
  and the empty string are not set.
\<close>

theorem selected_records_in_row_count:
  assumes "ids \<noteq> []"
  shows "handleRowCount R tid t fm fmh flt cand sel (Some ids) search uid
           = length (counted_rows R
               (handleRowCount_query tid t fm fmh flt cand sel (Some ids) search uid)) \<and>
         (truthy_link_cell cand \<longrightarrow>
            WhereNotIn (t @ ''.__id'') ids
              \<in> set (where_q (handleRowCount_query tid t fm fmh flt cand sel (Some ids) search uid)) \<and>
            WhereIn (t @ ''.__id'') ids
              \<notin> set (where_q (handleRowCount_query tid t fm fmh flt cand sel (Some ids) search uid)) \<and>
            (\<forall>r \<in> set (counted_rows R
                          (handleRowCount_query tid t fm fmh flt cand sel (Some ids) search uid)).
               column_text R (t @ ''.__id'') r \<notin> Some ` set ids)) \<and>
         (\<not> truthy_link_cell cand \<longrightarrow>
            WhereIn (t @ ''.__id'') ids
              \<in> set (where_q (handleRowCount_query tid t fm fmh flt cand sel (Some ids) search uid)) \<and>
            WhereNotIn (t @ ''.__id'') ids
              \<notin> set (where_q (handleRowCount_query tid t fm fmh flt cand sel (Some ids) search uid)) \<and>
            (\<forall>r \<in> set (counted_rows R
                          (handleRowCount_query tid t fm fmh flt cand sel (Some ids) search uid)).
               column_text R (t @ ''.__id'') r \<in> Some ` set ids)) \<and>
         (truthy_link_cell cand \<longleftrightarrow>
            (\<exists>f. cand = Some (LinkCell f None) \<and> f \<noteq> []) \<or> (\<exists>f r. cand = Some (LinkCell f (Some r))))"
proof -
  let ?q = "handleRowCount_query tid t fm fmh flt cand sel (Some ids) search uid"
  have count: "handleRowCount R tid t fm fmh flt cand sel (Some ids) search uid
                 = length (counted_rows R ?q)"
    by (simp add: handleRowCount_def getRowCount_def)
  have set_q: "truthy_link_cell cand \<Longrightarrow>
                 WhereNotIn (t @ ''.__id'') ids \<in> set (where_q ?q) \<and>
                 WhereIn (t @ ''.__id'') ids \<notin> set (where_q ?q)"
    by (auto simp: handleRowCount_query_def split: option.splits)
  have unset_q: "\<not> truthy_link_cell cand \<Longrightarrow>
                 WhereIn (t @ ''.__id'') ids \<in> set (where_q ?q) \<and>
                 WhereNotIn (t @ ''.__id'') ids \<notin> set (where_q ?q)"
    by (auto simp: handleRowCount_query_def split: option.splits)
  have holds: "where_holds R r c" if "r \<in> set (counted_rows R ?q)" "c \<in> set (where_q ?q)" for r c
    using that by (auto simp: counted_rows_def list_all_iff)
  have excl: "column_text R (t @ ''.__id'') r \<notin> Some ` set ids"
    if "truthy_link_cell cand" "r \<in> set (counted_rows R ?q)" for r
  proof -
    from set_q [OF that(1)] holds [OF that(2)]
    have "where_holds R r (WhereNotIn (t @ ''.__id'') ids)" by blast
    with assms show ?thesis
      by (auto split: option.splits)
  qed
  have incl: "column_text R (t @ ''.__id'') r \<in> Some ` set ids"
    if "\<not> truthy_link_cell cand" "r \<in> set (counted_rows R ?q)" for r
  proof -
    from unset_q [OF that(1)] holds [OF that(2)]
    have "where_holds R r (WhereIn (t @ ''.__id'') ids)" by blast
    then show ?thesis
      by (auto split: option.splits)
  qed
  have truthy: "truthy_link_cell cand \<longleftrightarrow>
            (\<exists>f. cand = Some (LinkCell f None) \<and> f \<noteq> []) \<or> (\<exists>f r. cand = Some (LinkCell f (Some r)))"
    by (cases cand rule: truthy_link_cell.cases) simp_all
  from count set_q unset_q excl incl truthy show ?thesis
    by blast
qed

theorem selected_records_in_row_count_witness:
  "[''rec1'', ''rec2''] \<noteq> [] \<and>
   truthy_link_cell (Some (LinkCell ''fldCustomerOrders'' None)) \<and>
   counted_rows example_relation
     (handleRowCount_query ''tblOrders'' ''orders'' full_map visible_map None
        (Some (LinkCell ''fldCustomerOrders'' None)) None (Some [''rec1'', ''rec2'']) None None)
     = [''rec3''] \<and>
   handleRowCount example_relation ''tblOrders'' ''orders'' full_map visible_map None
        (Some (LinkCell ''fldCustomerOrders'' None)) None (Some [''rec1'', ''rec2'']) None None = 1 \<and>
   \<not> truthy_link_cell None \<and>
   counted_rows example_relation
     (handleRowCount_query ''tblOrders'' ''orders'' full_map visible_map None
        None None (Some [''rec1'', ''rec2'']) None None)
     = [''rec1'', ''rec2''] \<and>
   handleRowCount example_relation ''tblOrders'' ''orders'' full_map visible_map None
        None None (Some [''rec1'', ''rec2'']) None None = 2 \<and>
   \<not> truthy_link_cell (Some (LinkCell [] None)) \<and>
   where_q
     (handleRowCount_query ''tblOrders'' ''orders'' full_map visible_map None
        (Some (LinkCell [] None)) None (Some [''rec1'', ''rec2'']) None None)
     = [WhereIn ''orders.__id'' [''rec1'', ''rec2'']] \<and>
   handleRowCount example_relation ''tblOrders'' ''orders'' full_map visible_map None
        (Some (LinkCell [] None)) None (Some [''rec1'', ''rec2'']) None None = 2"
proof -
  have n: "[''rec1'', ''rec2''] \<noteq> []" by simp
  have c1: "counted_rows example_relation
     (handleRowCount_query ''tblOrders'' ''orders'' full_map visible_map None
        (Some (LinkCell ''fldCustomerOrders'' None)) None (Some [''rec1'', ''rec2'']) None None)
     = [''rec3'']"
    by (simp add: counted_rows_def handleRowCount_query_def example_relation_def)
  have c2: "counted_rows example_relation
     (handleRowCount_query ''tblOrders'' ''orders'' full_map visible_map None
        None None (Some [''rec1'', ''rec2'']) None None)
     = [''rec1'', ''rec2'']"
    by (simp add: counted_rows_def handleRowCount_query_def example_relation_def)
  have q3: "where_q
     (handleRowCount_query ''tblOrders'' ''orders'' full_map visible_map None
        (Some (LinkCell [] None)) None (Some [''rec1'', ''rec2'']) None None)
     = [WhereIn ''orders.__id'' [''rec1'', ''rec2'']]"
    by (simp add: handleRowCount_query_def)
  have c3: "counted_rows example_relation
     (handleRowCount_query ''tblOrders'' ''orders'' full_map visible_map None
        (Some (LinkCell [] None)) None (Some [''rec1'', ''rec2'']) None None)
     = [''rec1'', ''rec2'']"
    by (simp add: counted_rows_def handleRowCount_query_def example_relation_def)
  from selected_records_in_row_count [OF n, of example_relation "''tblOrders''" "''orders''"
          full_map visible_map None "Some (LinkCell ''fldCustomerOrders'' None)" None None None]
       selected_records_in_row_count [OF n, of example_relation "''tblOrders''" "''orders''"
          full_map visible_map None None None None None]
       selected_records_in_row_count [OF n, of example_relation "''tblOrders''" "''orders''"
          full_map visible_map None "Some (LinkCell [] None)" None None None]
       c1 c2 c3 q3
  show ?thesis by simp
qed

section \<open>Properties of the grouped aggregation\<close>

lemma groupByFields_map:
  "groupByFields fm gb = Inr gbf \<Longrightarrow>
     gbf = map (\<lambda>g. (fieldId_g g, dbFieldName (the (map_of fm (fieldId_g g))))) gb \<and>
     (\<forall>g \<in> set gb. map_of fm (fieldId_g g) \<noteq> None)"
  by (induction gb arbitrary: gbf) (auto split: option.splits sum.splits)

lemma groupId_of_spec:
  assumes "groupByFields fm gb = Inr gbf" and "i < length gb"
  shows "groupId_of E gbf i (fieldId_g (gb ! i)) r = groupId_spec E fm gb i r"
proof -
  from groupByFields_map [OF assms(1)]
  have gbf: "gbf = map (\<lambda>g. (fieldId_g g, dbFieldName (the (map_of fm (fieldId_g g))))) gb"
    and ok: "\<forall>g \<in> set gb. map_of fm (fieldId_g g) \<noteq> None"
    by auto
  have "map (\<lambda>(fieldId', dbFieldName').
               join_element E (convertValueToStringify E (row_get r dbFieldName')))
          (take (i + 1) gbf)
        = map (\<lambda>g. join_element E (convertValueToStringify E (group_value fm r g)))
            (take (i + 1) gb)"
    using ok by (auto simp: gbf take_map group_value_def dest!: in_set_takeD)
  then show ?thesis
    by (simp add: groupId_of_def groupId_spec_def)
qed

lemma has_group_step_kept:
  assumes "has_group obj fid k" and "map_of obj f' = Some cur"
  shows "has_group
           (assign obj f'
              (cur\<lparr>group_a :=
                    (case group_a cur of
                       None \<Rightarrow> Some (Map.empty(gid \<mapsto> e))
                     | Some g \<Rightarrow> Some (g(gid \<mapsto> e)))\<rparr>)) fid k"
  using assms
  by (cases "fid = f'") (auto simp: has_group_def map_of_assign split: option.splits)

lemma has_group_step_new:
  "has_group
     (assign obj f'
        (cur\<lparr>group_a :=
              (case group_a cur of
                 None \<Rightarrow> Some (Map.empty(gid \<mapsto> e))
               | Some g \<Rightarrow> Some (g(gid \<mapsto> e)))\<rparr>)) f' gid"
  by (auto simp: has_group_def map_of_assign split: option.splits)

lemma statisticLoop_Cons:
  assumes "statisticLoop E r gid (sf # sfs) obj = Inr obj'"
  obtains cur e where "map_of obj (fieldId_s sf) = Some cur"
    and "statisticLoop E r gid sfs
           (assign obj (fieldId_s sf)
              (cur\<lparr>group_a :=
                    (case group_a cur of
                       None \<Rightarrow> Some (Map.empty(gid \<mapsto> e))
                     | Some g \<Rightarrow> Some (g(gid \<mapsto> e)))\<rparr>)) = Inr obj'"
  using assms by (auto simp: Let_def split: option.splits)

lemma statisticLoop_has_group_kept:
  "statisticLoop E r gid sfs obj = Inr obj' \<Longrightarrow> has_group obj fid k \<Longrightarrow> has_group obj' fid k"
proof (induction sfs arbitrary: obj)
  case Nil
  then show ?case by simp
next
  case (Cons sf sfs)
  from Cons.prems(1) obtain cur e where cur: "map_of obj (fieldId_s sf) = Some cur"
    and rest: "statisticLoop E r gid sfs
           (assign obj (fieldId_s sf)
              (cur\<lparr>group_a :=
                    (case group_a cur of
                       None \<Rightarrow> Some (Map.empty(gid \<mapsto> e))
                     | Some g \<Rightarrow> Some (g(gid \<mapsto> e)))\<rparr>)) = Inr obj'"
    by (rule statisticLoop_Cons)
  from Cons.IH [OF rest has_group_step_kept [OF Cons.prems(2) cur]] show ?case .
qed

lemma statisticLoop_has_group_new:
  "statisticLoop E r gid sfs obj = Inr obj' \<Longrightarrow> sf \<in> set sfs \<Longrightarrow>
     has_group obj' (fieldId_s sf) gid"
proof (induction sfs arbitrary: obj)
  case Nil
  then show ?case by simp
next
  case (Cons x sfs)
  from Cons.prems(1) obtain cur e where cur: "map_of obj (fieldId_s x) = Some cur"
    and rest: "statisticLoop E r gid sfs
           (assign obj (fieldId_s x)
              (cur\<lparr>group_a :=
                    (case group_a cur of
                       None \<Rightarrow> Some (Map.empty(gid \<mapsto> e))
                     | Some g \<Rightarrow> Some (g(gid \<mapsto> e)))\<rparr>)) = Inr obj'"
    by (rule statisticLoop_Cons)
  show ?case
  proof (cases "sf = x")
    case True
    with statisticLoop_has_group_kept [OF rest has_group_step_new] show ?thesis by simp
  next
    case False
    with Cons.prems(2) have "sf \<in> set sfs" by simp
    from Cons.IH [OF rest this] show ?thesis .
  qed
qed

lemma rowLoop_Cons:
  assumes "rowLoop E gbf i cur sfs (r # rows) obj = Inr obj'"
  obtains obj1 where "statisticLoop E r (groupId_of E gbf i cur r) sfs obj = Inr obj1"
    and "rowLoop E gbf i cur sfs rows obj1 = Inr obj'"
  using assms by (auto simp: Let_def split: sum.splits)

lemma rowLoop_has_group_kept:
  "rowLoop E gbf i cur sfs rows obj = Inr obj' \<Longrightarrow> has_group obj fid k \<Longrightarrow> has_group obj' fid k"
proof (induction rows arbitrary: obj)
  case Nil
  then show ?case by simp
next
  case (Cons r rows)
  from Cons.prems(1) obtain obj1 where
    one: "statisticLoop E r (groupId_of E gbf i cur r) sfs obj = Inr obj1"
    and rest: "rowLoop E gbf i cur sfs rows obj1 = Inr obj'"
    by (rule rowLoop_Cons)
  from Cons.IH [OF rest statisticLoop_has_group_kept [OF one Cons.prems(2)]] show ?case .
qed

lemma rowLoop_has_group_new:
  "rowLoop E gbf i cur sfs rows obj = Inr obj' \<Longrightarrow> r \<in> set rows \<Longrightarrow> sf \<in> set sfs \<Longrightarrow>
     has_group obj' (fieldId_s sf) (groupId_of E gbf i cur r)"
proof (induction rows arbitrary: obj)
  case Nil
  then show ?case by simp
next
  case (Cons x rows)
  from Cons.prems(1) obtain obj1 where
    one: "statisticLoop E x (groupId_of E gbf i cur x) sfs obj = Inr obj1"
    and rest: "rowLoop E gbf i cur sfs rows obj1 = Inr obj'"
    by (rule rowLoop_Cons)
  show ?case
  proof (cases "r = x")
    case True
    from statisticLoop_has_group_new [OF one Cons.prems(3)]
    have "has_group obj1 (fieldId_s sf) (groupId_of E gbf i cur x)" .
    from rowLoop_has_group_kept [OF rest this] True show ?thesis by simp
  next
    case False
    with Cons.prems(2) have "r \<in> set rows" by simp
    from Cons.IH [OF rest this Cons.prems(3)] show ?thesis .
  qed
qed

lemma levelLoop_Cons:
  assumes "levelLoop E t fm fmh flt gb search sfs uid gbf (i # levels) obj = Inr obj'"
  obtains rows cur d obj1 where "level_rows E t fm fmh flt gb search sfs uid i = Inr rows"
    and "at gbf i = Some (cur, d)"
    and "rowLoop E gbf i cur sfs rows obj = Inr obj1"
    and "levelLoop E t fm fmh flt gb search sfs uid gbf levels obj1 = Inr obj'"
  using assms by (auto split: sum.splits option.splits)

lemma levelLoop_has_group_kept:
  "levelLoop E t fm fmh flt gb search sfs uid gbf levels obj = Inr obj' \<Longrightarrow>
     has_group obj fid k \<Longrightarrow> has_group obj' fid k"
proof (induction levels arbitrary: obj)
  case Nil
  then show ?case by simp
next
  case (Cons i levels)
  from Cons.prems(1) obtain rows cur d obj1 where
    one: "rowLoop E gbf i cur sfs rows obj = Inr obj1"
    and rest: "levelLoop E t fm fmh flt gb search sfs uid gbf levels obj1 = Inr obj'"
    by (rule levelLoop_Cons)
  from Cons.IH [OF rest rowLoop_has_group_kept [OF one Cons.prems(2)]] show ?case .
qed

lemma levelLoop_has_group_new:
  "levelLoop E t fm fmh flt gb search sfs uid gbf levels obj = Inr obj' \<Longrightarrow>
     i \<in> set levels \<Longrightarrow> level_rows E t fm fmh flt gb search sfs uid i = Inr rows \<Longrightarrow>
     at gbf i = Some (cur, d) \<Longrightarrow> r \<in> set rows \<Longrightarrow> sf \<in> set sfs \<Longrightarrow>
     has_group obj' (fieldId_s sf) (groupId_of E gbf i cur r)"
proof (induction levels arbitrary: obj)
  case Nil
  then show ?case by simp
next
  case (Cons x levels)
  from Cons.prems(1) obtain rows' cur' d' obj1 where
    lr: "level_rows E t fm fmh flt gb search sfs uid x = Inr rows'"
    and at: "at gbf x = Some (cur', d')"
    and one: "rowLoop E gbf x cur' sfs rows' obj = Inr obj1"
    and rest: "levelLoop E t fm fmh flt gb search sfs uid gbf levels obj1 = Inr obj'"
    by (rule levelLoop_Cons)
  show ?case
  proof (cases "i = x")
    case True
    with lr at Cons.prems(3,4) have "rows' = rows" "cur' = cur" by simp_all
    with rowLoop_has_group_new [OF one _ Cons.prems(6), of r] Cons.prems(5) True
    have "has_group obj1 (fieldId_s sf) (groupId_of E gbf i cur r)" by simp
    from levelLoop_has_group_kept [OF rest this] show ?thesis .
  next
    case False
    with Cons.prems(2) have "i \<in> set levels" by simp
    from Cons.IH [OF rest this Cons.prems(3-6)] show ?thesis .
  qed
qed

lemma map_of_foldl_assign_key:
  "(\<forall>k a. map_of obj k = Some a \<longrightarrow> key a = k) \<Longrightarrow>
     map_of (foldl (\<lambda>obj x. assign obj (key x) x) obj xs) k = Some a \<Longrightarrow> key a = k"
proof (induction xs arbitrary: obj)
  case Nil
  then show ?case by simp
next
  case (Cons x xs)
  have "\<forall>k a. map_of (assign obj (key x) x) k = Some a \<longrightarrow> key a = k"
    using Cons.prems(1) by (auto simp: map_of_assign)
  from Cons.IH [OF this] Cons.prems(2) show ?case by simp
qed

lemma keyed_keyBy: "keyed (keyBy fieldId_a (aggregations :: 'n raw_aggregation list))"
proof -
  have base: "\<forall>k a. map_of ([] :: (string \<times> 'n raw_aggregation) list) k = Some a
                \<longrightarrow> fieldId_a a = k"
    by simp
  have "fieldId_a a = k" if "map_of (keyBy fieldId_a aggregations) k = Some a" for k a
    by (rule map_of_foldl_assign_key [OF base that [unfolded keyBy_def]])
  then show ?thesis
    unfolding keyed_def by blast
qed

lemma keyed_step:
  "keyed obj \<Longrightarrow> map_of obj f' = Some cur \<Longrightarrow> keyed (assign obj f' (cur\<lparr>group_a := g\<rparr>))"
  by (auto simp: keyed_def map_of_assign)

lemma statisticLoop_keyed:
  "statisticLoop E r gid sfs obj = Inr obj' \<Longrightarrow> keyed obj \<Longrightarrow> keyed obj'"
proof (induction sfs arbitrary: obj)
  case Nil
  then show ?case by simp
next
  case (Cons sf sfs)
  from Cons.prems(1) obtain cur e where cur: "map_of obj (fieldId_s sf) = Some cur"
    and rest: "statisticLoop E r gid sfs
           (assign obj (fieldId_s sf)
              (cur\<lparr>group_a :=
                    (case group_a cur of
                       None \<Rightarrow> Some (Map.empty(gid \<mapsto> e))
                     | Some g \<Rightarrow> Some (g(gid \<mapsto> e)))\<rparr>)) = Inr obj'"
    by (rule statisticLoop_Cons)
  from Cons.IH [OF rest keyed_step [OF Cons.prems(2) cur]] show ?case .
qed

lemma rowLoop_keyed:
  "rowLoop E gbf i cur sfs rows obj = Inr obj' \<Longrightarrow> keyed obj \<Longrightarrow> keyed obj'"
proof (induction rows arbitrary: obj)
  case Nil
  then show ?case by simp
next
  case (Cons r rows)
  from Cons.prems(1) obtain obj1 where
    one: "statisticLoop E r (groupId_of E gbf i cur r) sfs obj = Inr obj1"
    and rest: "rowLoop E gbf i cur sfs rows obj1 = Inr obj'"
    by (rule rowLoop_Cons)
  from Cons.IH [OF rest statisticLoop_keyed [OF one Cons.prems(2)]] show ?case .
qed

lemma levelLoop_keyed:
  "levelLoop E t fm fmh flt gb search sfs uid gbf levels obj = Inr obj' \<Longrightarrow>
     keyed obj \<Longrightarrow> keyed obj'"
proof (induction levels arbitrary: obj)
  case Nil
  then show ?case by simp
next
  case (Cons i levels)
  from Cons.prems(1) obtain rows cur d obj1 where
    one: "rowLoop E gbf i cur sfs rows obj = Inr obj1"
    and rest: "levelLoop E t fm fmh flt gb search sfs uid gbf levels obj1 = Inr obj'"
    by (rule levelLoop_Cons)
  from Cons.IH [OF rest rowLoop_keyed [OF one Cons.prems(2)]] show ?case .
qed

lemma statisticLoop_assignments:
  "statisticLoop E r gid sfs obj = Inr obj' \<Longrightarrow>
     obj' = foldl put_group obj (map (\<lambda>sf. (fieldId_s sf, gid, statistic_entry E r sf)) sfs)"
proof (induction sfs arbitrary: obj)
  case Nil
  then show ?case by simp
next
  case (Cons sf sfs)
  from Cons.prems obtain cur where cur: "map_of obj (fieldId_s sf) = Some cur"
    and rest: "statisticLoop E r gid sfs (put_group obj (fieldId_s sf, gid, statistic_entry E r sf))
                 = Inr obj'"
    by (auto simp: Let_def put_group_def statistic_entry_def split: option.splits)
  from Cons.IH [OF rest] show ?case by simp
qed

lemma rowLoop_assignments:
  "rowLoop E gbf i cur sfs rows obj = Inr obj' \<Longrightarrow>
     obj' = foldl put_group obj
              (concat (map (\<lambda>r. map (\<lambda>sf. (fieldId_s sf, groupId_of E gbf i cur r,
                                              statistic_entry E r sf)) sfs) rows))"
proof (induction rows arbitrary: obj)
  case Nil
  then show ?case by simp
next
  case (Cons r rows)
  from Cons.prems obtain obj1 where
    one: "statisticLoop E r (groupId_of E gbf i cur r) sfs obj = Inr obj1"
    and rest: "rowLoop E gbf i cur sfs rows obj1 = Inr obj'"
    by (rule rowLoop_Cons)
  from Cons.IH [OF rest] statisticLoop_assignments [OF one] show ?case by simp
qed

lemma levelLoop_assignments:
  "levelLoop E t fm fmh flt gb search sfs uid gbf levels obj = Inr obj' \<Longrightarrow>
     (\<forall>i \<in> set levels. \<exists>rows. level_rows E t fm fmh flt gb search sfs uid i = Inr rows) \<and>
     obj' = foldl put_group obj
              (concat (map (\<lambda>i.
                 concat (map (\<lambda>r. map (\<lambda>sf. (fieldId_s sf, groupId_of E gbf i (fst (gbf ! i)) r,
                                                 statistic_entry E r sf)) sfs)
                           (rows_at E t fm fmh flt gb search sfs uid i)))
                 levels))"
proof (induction levels arbitrary: obj)
  case Nil
  then show ?case by simp
next
  case (Cons i levels)
  from Cons.prems obtain rows cur d obj1 where
    lr: "level_rows E t fm fmh flt gb search sfs uid i = Inr rows"
    and at: "at gbf i = Some (cur, d)"
    and one: "rowLoop E gbf i cur sfs rows obj = Inr obj1"
    and rest: "levelLoop E t fm fmh flt gb search sfs uid gbf levels obj1 = Inr obj'"
    by (rule levelLoop_Cons)
  from at have cur: "fst (gbf ! i) = cur"
    by (auto simp: at_def split: if_splits)
  from lr have ra: "rows_at E t fm fmh flt gb search sfs uid i = rows"
    by (simp add: rows_at_def)
  from Cons.IH [OF rest] rowLoop_assignments [OF one] lr cur ra show ?case by simp
qed

text \<open>
  Claim C2. When the grouped aggregation with the group list \<open>groupBy\<close> returns, then
  for every level \<open>i\<close> below the length of the list, every row of the level \<open>i\<close>
  query and every statistic field, the result has an aggregation of that field whose
  \<open>group\<close> object has an entry under the group id of the spec: the text of the hash of
  the id of \<open>groupBy[i]\<close>, an underscore, and the stringified group values of the row
  for the levels \<open>0\<close> to \<open>i\<close> joined by underscores. Rows with the same group values
  for those levels have the same group id. The result is the aggregations by field id
  after the assignments, level by level and row by row, of each statistic field's
  converted value under that group id.
\<close>

theorem grouped_aggregation_group_id:
  assumes "performGroupedAggregation E uid aggregations (Some sfs) flt search (Some gb) t fm fmh
             = Inr result"
    and "i < length gb"
    and "level_rows E t fm fmh flt gb search sfs uid i = Inr rows"
    and "r \<in> set rows"
    and "sf \<in> set sfs"
  shows "(\<exists>a g e. a \<in> set result \<and> fieldId_a a = fieldId_s sf \<and> group_a a = Some g \<and>
                  g (groupId_spec E fm gb i r) = Some e) \<and>
         (\<forall>r'. (\<forall>g \<in> set (take (i + 1) gb). group_value fm r' g = group_value fm r g) \<longrightarrow>
               groupId_spec E fm gb i r' = groupId_spec E fm gb i r) \<and>
         result = map snd (foldl put_group (keyBy fieldId_a aggregations)
                             (group_assignments E t fm fmh flt gb search sfs uid))"
proof -
  from assms(1) obtain gbf where
    gbf: "groupByFields fm gb = Inr gbf"
    and res: "map_sum (\<lambda>e. e) (map snd)
                (levelLoop E t fm fmh flt gb search sfs uid gbf [0..<length gb]
                   (keyBy fieldId_a aggregations)) = Inr result"
    by (auto simp: performGroupedAggregation_def split: sum.splits)
  from res obtain obj' where
    loop: "levelLoop E t fm fmh flt gb search sfs uid gbf [0..<length gb]
                 (keyBy fieldId_a aggregations) = Inr obj'"
    and result: "result = map snd obj'"
    by (cases "levelLoop E t fm fmh flt gb search sfs uid gbf [0..<length gb]
                 (keyBy fieldId_a aggregations)") auto
  from groupByFields_map [OF gbf]
  have gbf_map: "gbf = map (\<lambda>g. (fieldId_g g, dbFieldName (the (map_of fm (fieldId_g g))))) gb"
    by simp
  from gbf_map assms(2)
  have at: "at gbf i = Some (fieldId_g (gb ! i), dbFieldName (the (map_of fm (fieldId_g (gb ! i)))))"
    by (simp add: at_def)
  from assms(2) have "i \<in> set [0..<length gb]" by simp
  from levelLoop_has_group_new [OF loop this assms(3) at assms(4,5)]
  have "has_group obj' (fieldId_s sf) (groupId_of E gbf i (fieldId_g (gb ! i)) r)" .
  then have hg: "has_group obj' (fieldId_s sf) (groupId_spec E fm gb i r)"
    by (simp add: groupId_of_spec [OF gbf assms(2)])
  from levelLoop_keyed [OF loop keyed_keyBy] have k: "keyed obj'" .
  from hg obtain a g e where a: "map_of obj' (fieldId_s sf) = Some a"
    and g: "group_a a = Some g" "g (groupId_spec E fm gb i r) = Some e"
    by (auto simp: has_group_def split: option.splits)
  from map_of_SomeD [OF a] have "(fieldId_s sf, a) \<in> set obj'" .
  then have "snd (fieldId_s sf, a) \<in> snd ` set obj'"
    by (rule imageI)
  then have "a \<in> set result"
    by (simp add: result)
  moreover from k a have "fieldId_a a = fieldId_s sf"
    by (simp add: keyed_def)
  ultimately have first: "\<exists>a g e. a \<in> set result \<and> fieldId_a a = fieldId_s sf \<and>
      group_a a = Some g \<and> g (groupId_spec E fm gb i r) = Some e"
    using g by blast
  have second: "groupId_spec E fm gb i r' = groupId_spec E fm gb i r"
    if "\<forall>g \<in> set (take (i + 1) gb). group_value fm r' g = group_value fm r g" for r'
  proof -
    have eq: "map (\<lambda>g. join_element E (convertValueToStringify E (group_value fm r' g)))
            (take (i + 1) gb)
          = map (\<lambda>g. join_element E (convertValueToStringify E (group_value fm r g)))
              (take (i + 1) gb)"
      by (rule map_cong) (simp_all add: that)
    show ?thesis
      unfolding groupId_spec_def eq by (rule refl)
  qed
  have level: "concat (map (\<lambda>r. map (\<lambda>sf. (fieldId_s sf, groupId_of E gbf j (fst (gbf ! j)) r,
                                             statistic_entry E r sf)) sfs)
                        (rows_at E t fm fmh flt gb search sfs uid j))
               = concat (map (\<lambda>r. map (\<lambda>sf. (fieldId_s sf, groupId_spec E fm gb j r,
                                             statistic_entry E r sf)) sfs)
                        (rows_at E t fm fmh flt gb search sfs uid j))"
    if "j \<in> set [0..<length gb]" for j
  proof -
    from that have j: "j < length gb" by simp
    with gbf_map have "fst (gbf ! j) = fieldId_g (gb ! j)" by simp
    then show ?thesis
      by (simp add: groupId_of_spec [OF gbf j])
  qed
  have levels: "map (\<lambda>j. concat (map (\<lambda>r. map (\<lambda>sf. (fieldId_s sf,
                                  groupId_of E gbf j (fst (gbf ! j)) r, statistic_entry E r sf)) sfs)
                        (rows_at E t fm fmh flt gb search sfs uid j))) [0..<length gb]
                = map (\<lambda>j. concat (map (\<lambda>r. map (\<lambda>sf. (fieldId_s sf,
                                  groupId_spec E fm gb j r, statistic_entry E r sf)) sfs)
                        (rows_at E t fm fmh flt gb search sfs uid j))) [0..<length gb]"
    by (rule map_cong [OF refl]) (rule level)
  from levelLoop_assignments [OF loop]
  have "obj' = foldl put_group (keyBy fieldId_a aggregations)
                 (concat (map (\<lambda>j. concat (map (\<lambda>r. map (\<lambda>sf. (fieldId_s sf,
                                  groupId_of E gbf j (fst (gbf ! j)) r, statistic_entry E r sf)) sfs)
                        (rows_at E t fm fmh flt gb search sfs uid j))) [0..<length gb]))"
    by (rule conjunct2)
  then have "obj' = foldl put_group (keyBy fieldId_a aggregations)
                 (group_assignments E t fm fmh flt gb search sfs uid)"
    unfolding group_assignments_def levels .
  then have third: "result = map snd (foldl put_group (keyBy fieldId_a aggregations)
                             (group_assignments E t fm fmh flt gb search sfs uid))"
    by (simp add: result)
  show ?thesis
  proof (intro conjI allI impI)
    show "\<exists>a g e. a \<in> set result \<and> fieldId_a a = fieldId_s sf \<and>
      group_a a = Some g \<and> g (groupId_spec E fm gb i r) = Some e"
      by (rule first)
  next
    fix r'
    assume "\<forall>g \<in> set (take (i + 1) gb). group_value fm r' g = group_value fm r g"
    then show "groupId_spec E fm gb i r' = groupId_spec E fm gb i r"
      by (rule second)
  next
    show "result = map snd (foldl put_group (keyBy fieldId_a aggregations)
                             (group_assignments E t fm fmh flt gb search sfs uid))"
      by (rule third)
  qed
qed

theorem grouped_aggregation_group_id_witness:
  "0 < length by_order_no \<and>
   level_rows (example_env (\<lambda>q. grouped_rows)) ''orders'' full_map visible_map None by_order_no
     None sum_of_amount None 0 = Inr grouped_rows \<and>
   groupId_spec (example_env (\<lambda>q. grouped_rows)) full_map by_order_no 0 (grouped_rows ! 0)
     = ''2920017651'' \<and>
   (\<exists>result a g e.
      performGroupedAggregation (example_env (\<lambda>q. grouped_rows)) None total_of_amount
        (Some sum_of_amount) None None (Some by_order_no) ''orders'' full_map visible_map
        = Inr result \<and>
      a \<in> set result \<and> fieldId_a a = ''fldAmount'' \<and> group_a a = Some g \<and>
      g ''2920017651'' = Some e) \<and>
   (case performGroupedAggregation (example_env (\<lambda>q. grouped_rows)) None total_of_amount
           (Some sum_of_amount) None None (Some by_order_no) ''orders'' full_map visible_map of
      Inr [a] \<Rightarrow> (case group_a a of None \<Rightarrow> None | Some g \<Rightarrow> g ''2920017651'')
    | _ \<Rightarrow> None)
     = Some \<lparr>value_a = CNumber (Finite 30), aggFunc_a = OtherFunc ''sum''\<rparr>"
proof -
  let ?E = "example_env (\<lambda>q. grouped_rows)"
  have "isl (performGroupedAggregation ?E None total_of_amount (Some sum_of_amount) None None
               (Some by_order_no) ''orders'' full_map visible_map) = False"
    by code_simp
  then obtain result where
    p: "performGroupedAggregation ?E None total_of_amount (Some sum_of_amount) None None
          (Some by_order_no) ''orders'' full_map visible_map = Inr result"
    by (cases "performGroupedAggregation ?E None total_of_amount (Some sum_of_amount) None None
                 (Some by_order_no) ''orders'' full_map visible_map") auto
  have n: "0 < length by_order_no"
    by (simp add: by_order_no_def)
  have l: "level_rows ?E ''orders'' full_map visible_map None by_order_no None sum_of_amount
             None 0 = Inr grouped_rows"
    by code_simp
  have r: "grouped_rows ! 0 \<in> set grouped_rows"
    by (simp add: grouped_rows_def)
  have sf: "\<lparr>fieldId_s = ''fldAmount'', statisticFunc_s = OtherFunc ''sum''\<rparr> \<in> set sum_of_amount"
    by (simp add: sum_of_amount_def)
  have gid: "groupId_spec ?E full_map by_order_no 0 (grouped_rows ! 0) = ''2920017651''"
    by code_simp
  have v: "(case performGroupedAggregation ?E None total_of_amount
           (Some sum_of_amount) None None (Some by_order_no) ''orders'' full_map visible_map of
      Inr [a] \<Rightarrow> (case group_a a of None \<Rightarrow> None | Some g \<Rightarrow> g ''2920017651'')
    | _ \<Rightarrow> None)
     = Some \<lparr>value_a = CNumber (Finite 30), aggFunc_a = OtherFunc ''sum''\<rparr>"
    by code_simp
  from grouped_aggregation_group_id [OF p n l r sf]
  have "\<exists>a g e. a \<in> set result \<and>
          fieldId_a a = fieldId_s \<lparr>fieldId_s = ''fldAmount'', statisticFunc_s = OtherFunc ''sum''\<rparr> \<and>
          group_a a = Some g \<and>
          g (groupId_spec ?E full_map by_order_no 0 (grouped_rows ! 0)) = Some e"
    by (rule conjunct1)
  then have "\<exists>a g e. a \<in> set result \<and> fieldId_a a = ''fldAmount'' \<and> group_a a = Some g \<and>
                 g ''2920017651'' = Some e"
    by (simp add: gid)
  with p have "\<exists>result a g e.
      performGroupedAggregation ?E None total_of_amount
        (Some sum_of_amount) None None (Some by_order_no) ''orders'' full_map visible_map
        = Inr result \<and>
      a \<in> set result \<and> fieldId_a a = ''fldAmount'' \<and> group_a a = Some g \<and>
      g ''2920017651'' = Some e"
    by blast
  with n l gid v show ?thesis
    by (intro conjI)
qed

end
